theory Spec2Isabelle
  imports Complex_Main
begin

section \<open>The metrics bridge: descriptors, samples and the two collectors\<close>

subsection \<open>Values\<close>

text \<open>
  Go's \<^verbatim>\<open>float64\<close> as far as the collectors use it: a finite number, an infinity or
  not-a-number. Finite values are exact reals here (rounding is not modelled; the
  conversion of a packet counter below \<open>2^53\<close> is exact in Go as well).
\<close>

datatype float64 = Finite real | PosInf | NegInf | NaN

text \<open>
  \<^verbatim>\<open>float64(a) / float64(b)\<close> for two non-negative counters. Go does not panic on a
  floating-point division by zero: \<open>x / 0\<close> is \<open>+Inf\<close> for \<open>x > 0\<close> and \<open>0 / 0\<close> is
  \<open>NaN\<close>.
\<close>

definition float64_div :: "nat \<Rightarrow> nat \<Rightarrow> float64" where
  "float64_div a b =
     (if b = 0 then (if a = 0 then NaN else PosInf)
      else Finite (real a / real b))"

text \<open>
  Modelled from the spec: the type \<^verbatim>\<open>mon.Metrics\<close> of the probe engine is not part of
  the sources. The spec's Metrics Snapshot maps a Probe Identity to
  \<open>{packets_sent: uint, packets_lost: uint, best, worst, mean, stddev: duration}\<close>;
  the field names are the ones \<^verbatim>\<open>Collect\<close> reads. A duration is a real number of the
  engine's base unit.
\<close>

record Metrics =
  PacketsSent :: nat
  PacketsLost :: nat
  Best :: real
  Worst :: real
  Mean :: real
  StdDev :: real

text \<open>
  A snapshot is the Go map \<^verbatim>\<open>map[string]*mon.Metrics\<close>, given as the list of its
  entries in the order a \<^verbatim>\<open>range\<close> loop visits them (Go leaves that order open). The
  keys of a map are distinct.
\<close>

type_synonym snapshot = "(string \<times> Metrics) list"

text \<open>
  The value a sample carries. \<open>Plain\<close> is a gauge value passed to
  \<^verbatim>\<open>MustNewConstMetric\<close> as it is; \<open>Millis d\<close> and \<open>Seconds d\<close> are the duration \<open>d\<close>
  rendered as fractional milliseconds and as fractional seconds by the scaled
  descriptors below.
\<close>

datatype gauge = Plain float64 | Millis real | Seconds real

subsection \<open>Descriptors\<close>

record Desc =
  fqName :: string
  helpText :: string
  variableLabels :: "string list"
  constLabels :: "(string \<times> string) list"

datatype sample = Sample Desc gauge "string list"

fun sampleDesc :: "sample \<Rightarrow> Desc" where
  "sampleDesc (Sample d v ls) = d"

fun sampleValue :: "sample \<Rightarrow> gauge" where
  "sampleValue (Sample d v ls) = v"

fun labelValues :: "sample \<Rightarrow> string list" where
  "labelValues (Sample d v ls) = ls"

text \<open>The only panic of the collectors: a descriptor given the wrong number of label
  values (\<^verbatim>\<open>errInconsistentCardinality\<close> of the Prometheus client).\<close>

datatype panic = InconsistentCardinality

definition version :: string where
  "version = ''0.4.7''"

definition newDesc :: "string \<Rightarrow> string \<Rightarrow> string list \<Rightarrow> (string \<times> string) list \<Rightarrow> Desc" where
  "newDesc name hlp vls cls =
     \<lparr>fqName = ''ping_'' @ name, helpText = hlp, variableLabels = vls, constLabels = cls\<rparr>"

text \<open>
  \<^verbatim>\<open>prometheus.MustNewConstMetric\<close>: the metric, or a panic when the number of label
  values differs from the number of variable labels of the descriptor. (The client
  also refuses a label value that is not valid UTF-8; identities are taken to be
  valid text.)
\<close>

definition MustNewConstMetric :: "Desc \<Rightarrow> gauge \<Rightarrow> string list \<Rightarrow> panic + sample list" where
  "MustNewConstMetric d v ls =
     (if length ls = length (variableLabels d) then Inr [Sample d v ls]
      else Inl InconsistentCardinality)"

text \<open>
  The unit scale \<^verbatim>\<open>rttMetricsScale\<close>. \<^verbatim>\<open>main\<close> aborts at startup when the flag parses
  to \<^verbatim>\<open>rttInvalid\<close>, so a running collector sees one of the three others.
\<close>

datatype rttUnit = rttInMills | rttInSeconds | rttBoth

text \<open>
  Modelled from the spec: \<^verbatim>\<open>newScaledDesc\<close> and the \<^verbatim>\<open>Collect\<close> method of the scaled
  descriptor it returns are not part of the sources. The spec: a configuration toggle
  selects the unit scale for RTT values (fractional seconds, fractional milliseconds
  via a legacy unit, or both emitted side by side). A scaled descriptor is a
  descriptor of the given name, help and labels; collecting a value through it
  emits the value once per selected unit, each through \<^verbatim>\<open>MustNewConstMetric\<close>.
\<close>

definition newScaledDesc :: "string \<Rightarrow> string \<Rightarrow> string list \<Rightarrow> Desc" where
  "newScaledDesc name hlp vls = newDesc name hlp vls []"

definition scaledCollect :: "rttUnit \<Rightarrow> Desc \<Rightarrow> real \<Rightarrow> string list \<Rightarrow> panic + sample list" where
  "scaledCollect scale d v ls =
     (case (if scale = rttInMills \<or> scale = rttBoth
            then MustNewConstMetric d (Millis v) ls else Inr []) of
        Inl e \<Rightarrow> Inl e
      | Inr ms \<Rightarrow>
          (case (if scale = rttInSeconds \<or> scale = rttBoth
                 then MustNewConstMetric d (Seconds v) ls else Inr []) of
             Inl e \<Rightarrow> Inl e
           | Inr ss \<Rightarrow> Inr (ms @ ss)))"

definition labelNames :: "string list" where
  "labelNames = [''target'', ''ip'', ''ip_version'']"

definition rttDesc :: Desc where
  "rttDesc = newScaledDesc ''rtt_seconds'' ''Round trip time'' (labelNames @ [''type''])"

definition bestDesc :: Desc where
  "bestDesc = newScaledDesc ''rtt_best_seconds'' ''Best round trip time'' labelNames"

definition worstDesc :: Desc where
  "worstDesc = newScaledDesc ''rtt_worst_seconds'' ''Worst round trip time'' labelNames"

definition meanDesc :: Desc where
  "meanDesc = newScaledDesc ''rtt_mean_seconds'' ''Mean round trip time'' labelNames"

definition stddevDesc :: Desc where
  "stddevDesc = newScaledDesc ''rtt_std_deviation_seconds'' ''Standard deviation'' labelNames"

definition lossDesc :: Desc where
  "lossDesc = newDesc ''loss_percent'' ''Packet loss in percent'' labelNames []"

definition progDesc :: Desc where
  "progDesc = newDesc ''up'' ''ping_exporter version'' [] [(''version'', version)]"

subsection \<open>Splitting an identity into label values\<close>

text \<open>\<^verbatim>\<open>strings.Index\<close> for a one-character separator, as a cut: the text before the
  first separator and the text after it, or nothing when there is no separator.\<close>

fun cut :: "char \<Rightarrow> string \<Rightarrow> (string \<times> string) option" where
  "cut c [] = None"
| "cut c (x # xs) =
     (if x = c then Some ([], xs)
      else (case cut c xs of None \<Rightarrow> None | Some (a, b) \<Rightarrow> Some (x # a, b)))"

text \<open>
  \<^verbatim>\<open>strings.SplitN(s, sep, n)\<close> for a one-character separator and \<open>n \<ge> 0\<close>: no part
  for \<open>n = 0\<close>; otherwise at most \<open>n\<close> parts, the last one being the unsplit
  remainder.
\<close>

fun SplitN :: "string \<Rightarrow> char \<Rightarrow> nat \<Rightarrow> string list" where
  "SplitN s c 0 = []"
| "SplitN s c (Suc n) =
     (if n = 0 then [s]
      else (case cut c s of
              None \<Rightarrow> [s]
            | Some (a, rest) \<Rightarrow> a # SplitN rest c n))"

subsection \<open>The collectors\<close>

text \<open>
  The package variables and flags the collectors and the HTTP handler read:
  \<^verbatim>\<open>enableDeprecatedMetrics\<close>, \<^verbatim>\<open>rttMetricsScale\<close>, \<^verbatim>\<open>*targetsTimeout\<close> (seconds) and
  the static target list \<^verbatim>\<open>cfg.Targets\<close>.
\<close>

record settings =
  enableDeprecatedMetrics :: bool
  rttMetricsScale :: rttUnit
  targetsTimeout :: int
  Targets :: "string list"

text \<open>Run the emissions in order; the first panic ends the run.\<close>

fun emitAll :: "(panic + sample list) list \<Rightarrow> panic + sample list" where
  "emitAll [] = Inr []"
| "emitAll (r # rs) =
     (case r of
        Inl e \<Rightarrow> Inl e
      | Inr xs \<Rightarrow> (case emitAll rs of Inl e \<Rightarrow> Inl e | Inr ys \<Rightarrow> Inr (xs @ ys)))"

text \<open>
  The statements both \<^verbatim>\<open>Collect\<close> methods run for one identity and its metrics
  (lines 56 to 73 of the batch collector, lines 105 to 122 of the single-target
  collector; the two blocks are the same text).
\<close>

definition collectTarget :: "settings \<Rightarrow> string \<Rightarrow> Metrics \<Rightarrow> panic + sample list" where
  "collectTarget cfg tgt m =
     (let l = SplitN tgt CHR '' '' 3;
          sc = rttMetricsScale cfg
      in emitAll
        ((if PacketsSent m > PacketsLost m then
            (if enableDeprecatedMetrics cfg then
               [scaledCollect sc rttDesc (Best m) (l @ [''best'']),
                scaledCollect sc rttDesc (Worst m) (l @ [''worst'']),
                scaledCollect sc rttDesc (Mean m) (l @ [''mean'']),
                scaledCollect sc rttDesc (StdDev m) (l @ [''std_dev''])]
             else [])
            @ [scaledCollect sc bestDesc (Best m) l,
               scaledCollect sc worstDesc (Worst m) l,
               scaledCollect sc meanDesc (Mean m) l,
               scaledCollect sc stddevDesc (StdDev m) l]
          else [])
         @ [MustNewConstMetric lossDesc
              (Plain (float64_div (PacketsLost m) (PacketsSent m))) l]))"

text \<open>The \<^verbatim>\<open>range\<close> loop of the batch collector over the entries of the snapshot.\<close>

fun collectEntries :: "settings \<Rightarrow> snapshot \<Rightarrow> (panic + sample list) list" where
  "collectEntries cfg [] = []"
| "collectEntries cfg ((tgt, m) # es) = collectTarget cfg tgt m # collectEntries cfg es"

record pingBatchCollector =
  metrics :: snapshot

text \<open>
  \<^verbatim>\<open>pingBatchCollector.Collect\<close>. The argument \<open>fresh\<close> is what \<^verbatim>\<open>p.monitor.Export()\<close>
  returns on this call. The collector is returned with its cache as the call leaves
  it, together with the samples sent to the channel, or the panic.
\<close>

definition pingBatchCollector_Collect ::
  "settings \<Rightarrow> pingBatchCollector \<Rightarrow> snapshot \<Rightarrow> pingBatchCollector \<times> (panic + sample list)" where
  "pingBatchCollector_Collect cfg p fresh =
     (let p' = (if length fresh > 0 then p\<lparr>metrics := fresh\<rparr> else p)
      in (p', emitAll (MustNewConstMetric progDesc (Plain (Finite 1)) []
                        # collectEntries cfg (metrics p'))))"

record pingCollector =
  target :: string

text \<open>
  \<^verbatim>\<open>pingCollector.Collect\<close>: the lookup of \<^verbatim>\<open>p.target\<close> in the fresh export; when it
  is absent the method logs and returns with nothing sent.
\<close>

definition pingCollector_Collect :: "settings \<Rightarrow> pingCollector \<Rightarrow> snapshot \<Rightarrow> panic + sample list" where
  "pingCollector_Collect cfg p fresh =
     (case map_of fresh (target p) of
        None \<Rightarrow> Inr []
      | Some m \<Rightarrow>
          emitAll [MustNewConstMetric progDesc (Plain (Finite 1)) [],
                   collectTarget cfg (target p) m])"

section \<open>The ephemeral target registry and the HTTP handler\<close>

subsection \<open>Targets and the probe engine\<close>

text \<open>
  Modelled from the spec: \<^verbatim>\<open>net.IPAddr\<close> as far as an identity shows it, the text of
  the address and the text of its address family.
\<close>

record IPAddr =
  IP :: string
  family :: string

text \<open>
  The struct \<^verbatim>\<open>target\<close> with the fields the handler sets or reads (\<^verbatim>\<open>host\<close>,
  \<^verbatim>\<open>addresses\<close>, \<^verbatim>\<open>delay\<close> in milliseconds). Its resolver is the environment: what a
  lookup returns is an input of the request.
\<close>

record target =
  host :: string
  addresses :: "IPAddr list"
  delay :: nat

text \<open>
  Modelled from the spec: \<^verbatim>\<open>nameForIP\<close> is not part of the sources. The spec: the
  Probe Identity is the composite key (hostname, address, address family),
  serialized as a delimited string whose first two whitespace-separated tokens are
  hostname and address; the identity is derived by combining hostname and a
  resolved address.
\<close>

definition nameForIP :: "target \<Rightarrow> IPAddr \<Rightarrow> string" where
  "nameForIP t addr = host t @ '' '' @ IP addr @ '' '' @ family addr"

text \<open>
  Modelled from the spec: \<^verbatim>\<open>addIfNew\<close> is not part of the sources. The spec: register
  the resolved address with the Probe Engine Handle under its Probe Identity, as a
  new target; the engine may reject an address (a registration error). An address
  the target already holds is not registered again; a registered address is kept
  in the target's address list, so that it can be deregistered later. The engine is
  the set of identities registered with it; \<open>rejects\<close> is the engine's answer to the
  registration (an error text, or none).
\<close>

definition addIfNew ::
  "target \<Rightarrow> IPAddr \<Rightarrow> string option \<Rightarrow> string set \<Rightarrow> string option \<times> target \<times> string set" where
  "addIfNew t addr rejects mon =
     (if addr \<in> set (addresses t) then (None, t, mon)
      else (case rejects of
              Some err \<Rightarrow> (Some err, t, mon)
            | None \<Rightarrow> (None, t\<lparr>addresses := addresses t @ [addr]\<rparr>,
                       insert (nameForIP t addr) mon)))"

text \<open>
  Modelled from the spec: \<^verbatim>\<open>cleanUp\<close> is not part of the sources. The spec: when the
  timer fires, deregister the hostname's addresses from the Probe Engine Handle
  (the callback deregisters exactly its own addresses). The addresses are the ones
  the call is given.
\<close>

definition cleanUp :: "target \<Rightarrow> IPAddr list \<Rightarrow> string set \<Rightarrow> string set" where
  "cleanUp t addrs mon = mon - set (map (nameForIP t) addrs)"

subsection \<open>Time, timers and the state of the server\<close>

text \<open>
  Time is in nanoseconds, as \<^verbatim>\<open>time.Duration\<close> and the runtime clock count it.
  \<open>Second\<close> is \<^verbatim>\<open>time.Second\<close>. A \<^verbatim>\<open>time.Duration\<close> is an \<^verbatim>\<open>int64\<close>: \<open>int64\<close> is the
  conversion to it and the wrap-around of its arithmetic.
\<close>

definition Second :: int where
  "Second = 1000000000"

definition int64 :: "int \<Rightarrow> int" where
  "int64 x = (x + 9223372036854775808) mod 18446744073709551616 - 9223372036854775808"

text \<open>The expression \<^verbatim>\<open>time.Duration(*targetsTimeout)*time.Second\<close> of line 242.\<close>

definition timeoutDuration :: "settings \<Rightarrow> int" where
  "timeoutDuration cfg = int64 (int64 (targetsTimeout cfg) * Second)"

text \<open>
  The instant at which a timer made now with the duration \<open>d\<close> is due (the function
  \<^verbatim>\<open>when\<close> of package \<^verbatim>\<open>time\<close>): now for a duration that is not positive, and the
  largest instant when the sum overflows.
\<close>

definition timerWhen :: "int \<Rightarrow> int \<Rightarrow> int" where
  "timerWhen nw d =
     (if d \<le> 0 then nw
      else if nw + d > 9223372036854775807 then 9223372036854775807
      else nw + d)"

text \<open>
  A timer made by \<^verbatim>\<open>time.AfterFunc\<close>: the instant it is due and what its callback
  closes over, the hostname \<^verbatim>\<open>tg\<close> and the target \<^verbatim>\<open>t\<close> of the request that made it.
  \<open>timerId\<close> stands for the pointer \<^verbatim>\<open>*time.Timer\<close>.
\<close>

record timer =
  timerId :: nat
  firesAt :: int
  tg :: string
  owner :: target

text \<open>
  The state the handlers and the timer callbacks share. \<open>now\<close> is the clock.
  \<open>targetsMap\<close> is the \<^verbatim>\<open>sync.Map\<close> from hostname to timer; \<open>timers\<close> holds the live
  timers, those that have neither expired nor been stopped; \<open>monitor\<close> is the set of
  identities registered with the probe engine; \<open>batch\<close> is the batch collector
  registered at startup.
\<close>

record world =
  now :: int
  targetsMap :: "string \<rightharpoonup> nat"
  timers :: "timer list"
  nextTimer :: nat
  monitor :: "string set"
  batch :: pingBatchCollector

definition initialWorld :: world where
  "initialWorld = \<lparr>now = 0, targetsMap = Map.empty, timers = [], nextTimer = 0,
     monitor = {}, batch = \<lparr>metrics = []\<rparr>\<rparr>"

text \<open>
  The state when the server starts to serve: \<^verbatim>\<open>startMonitor\<close> has registered the
  identities \<open>mon\<close> of the static targets with the engine, the registry is empty and
  no timer has been made.
\<close>

definition startedWorld :: "string set \<Rightarrow> world" where
  "startedWorld mon = initialWorld\<lparr>monitor := mon\<rparr>"

text \<open>\<^verbatim>\<open>Timer.Stop\<close>: the timer is no longer live; stopping a timer that is not live
  (it has expired or has been stopped) changes nothing, and does not wait for a
  callback that has started. The handler ignores the result of \<^verbatim>\<open>Stop\<close>.\<close>

definition Stop :: "nat \<Rightarrow> world \<Rightarrow> world" where
  "Stop tid w = w\<lparr>timers := filter (\<lambda>x. timerId x \<noteq> tid) (timers w)\<rparr>"

text \<open>
  \<^verbatim>\<open>time.AfterFunc\<close> at line 242 makes a live timer for the hostname and the target of
  the request; \<^verbatim>\<open>targetsMap.Store\<close> then stores it under the hostname.
\<close>

definition AfterFunc :: "settings \<Rightarrow> string \<Rightarrow> target \<Rightarrow> world \<Rightarrow> world" where
  "AfterFunc cfg h t w =
     w\<lparr>timers := timers w @
           [\<lparr>timerId = nextTimer w, firesAt = timerWhen (now w) (timeoutDuration cfg),
             tg = h, owner = t\<rparr>],
       nextTimer := Suc (nextTimer w)\<rparr>"

definition Store :: "string \<Rightarrow> nat \<Rightarrow> world \<Rightarrow> world" where
  "Store h tid w = w\<lparr>targetsMap := (targetsMap w)(h \<mapsto> tid)\<rparr>"

text \<open>
  A timer expires: it is no longer live, and its callback starts on a goroutine of
  its own. The callback has two statements, \<^verbatim>\<open>targetsMap.Delete(tg)\<close> (line 244,
  whatever timer the entry holds by then) and \<^verbatim>\<open>t.cleanUp(t.addresses, monitor)\<close>
  (line 245).
\<close>

definition expire :: "timer \<Rightarrow> world \<Rightarrow> world" where
  "expire tm w = w\<lparr>timers := filter (\<lambda>x. timerId x \<noteq> timerId tm) (timers w)\<rparr>"

definition callbackDelete :: "timer \<Rightarrow> world \<Rightarrow> world" where
  "callbackDelete tm w = w\<lparr>targetsMap := (targetsMap w)(tg tm := None)\<rparr>"

definition callbackCleanUp :: "timer \<Rightarrow> world \<Rightarrow> world" where
  "callbackCleanUp tm w =
     w\<lparr>monitor := cleanUp (owner tm) (addresses (owner tm)) (monitor w)\<rparr>"

text \<open>
  The run of a timer in which nothing comes in between: it expires and its
  callback runs to completion at once. And the passing of time to the instant \<open>t\<close>
  in which every live timer due by then does so. These are the runs of the timers
  when no handler is at work while a callback is pending; the schedules further
  down let callbacks and handlers interleave.
\<close>

definition fire :: "timer \<Rightarrow> world \<Rightarrow> world" where
  "fire tm w = callbackCleanUp tm (callbackDelete tm (expire tm w))"

definition advance :: "int \<Rightarrow> world \<Rightarrow> world" where
  "advance t w =
     fold fire (filter (\<lambda>tm. firesAt tm \<le> max (now w) t) (timers w))
       (w\<lparr>now := max (now w) t\<rparr>)"

subsection \<open>The handler of the metrics path\<close>

text \<open>
  What one request brings and what the environment answers while it is handled:
  the query parameter \<^verbatim>\<open>target\<close>, the result of \<^verbatim>\<open>LookupIPAddr\<close> (an error text or
  the addresses), the engine's answer to a registration, and what
  \<^verbatim>\<open>monitor.Export()\<close> returns when the collector runs.
\<close>

record request =
  query :: string
  lookup :: "string + IPAddr list"
  rejects :: "string option"
  export :: snapshot

text \<open>
  A response: \<^verbatim>\<open>http.Error\<close> with its status code and body, or the exposition of
  what a collector sent (status 200).
\<close>

datatype response = Error nat string | Served "panic + sample list"

text \<open>\<^verbatim>\<open>http.Error(w, msg, code)\<close> writes the message and a line feed.\<close>

definition httpError :: "string \<Rightarrow> nat \<Rightarrow> response" where
  "httpError msg code = Error code (msg @ [CHR 0x0A])"

text \<open>Lines 210 to 223: the target of the request and its resolution.\<close>

definition resolve :: "request \<Rightarrow> response + (target \<times> IPAddr list)" where
  "resolve req =
     (let t = \<lparr>host = query req, addresses = [], delay = 1\<rparr> in
      case lookup req of
        Inl err \<Rightarrow> Inl (httpError err 400)
      | Inr addrs \<Rightarrow>
          if length addrs = 0 then Inl (httpError ''cannot resolve target'' 400)
          else Inr (t, addrs))"

text \<open>
  Lines 225 to 234, given the result \<open>to\<close> of \<^verbatim>\<open>targetsMap.Load(tg)\<close>: a hostname
  with no entry is registered with the engine, the timer of a hostname with an
  entry is stopped.
\<close>

definition registerOrStop ::
  "request \<Rightarrow> target \<Rightarrow> IPAddr list \<Rightarrow> nat option \<Rightarrow> world \<Rightarrow> response + (target \<times> world)" where
  "registerOrStop req t addrs to w =
     (case to of
        None \<Rightarrow>
          (case addIfNew t (addrs ! 0) (rejects req) (monitor w) of
             (Some err, t', mon') \<Rightarrow> Inl (httpError err 500)
           | (None, t', mon') \<Rightarrow> Inr (t', w\<lparr>monitor := mon'\<rparr>))
      | Some tid \<Rightarrow> Inr (t, Stop tid w))"

text \<open>Lines 242 to 246 with nothing in between: the new timer, due after the
  timeout, is made and stored under the hostname.\<close>

definition arm :: "settings \<Rightarrow> string \<Rightarrow> target \<Rightarrow> world \<Rightarrow> world" where
  "arm cfg h t w = Store h (nextTimer w) (AfterFunc cfg h t w)"

text \<open>Lines 235 to 241 and 247: the single-target collector answers.\<close>

definition serve :: "settings \<Rightarrow> request \<Rightarrow> target \<Rightarrow> IPAddr list \<Rightarrow> response" where
  "serve cfg req t addrs =
     Served (pingCollector_Collect cfg \<lparr>target = nameForIP t (addrs ! 0)\<rparr> (export req))"

text \<open>The handler, run without a step of another handler or of a timer callback in
  between.\<close>

definition handler :: "settings \<Rightarrow> request \<Rightarrow> world \<Rightarrow> response \<times> world" where
  "handler cfg req w =
     (if query req = [] then
        (let (p', r) = pingBatchCollector_Collect cfg (batch w) (export req)
         in (Served r, w\<lparr>batch := p'\<rparr>))
      else
        (case resolve req of
           Inl resp \<Rightarrow> (resp, w)
         | Inr (t, addrs) \<Rightarrow>
             (case registerOrStop req t addrs (targetsMap w (query req)) w of
                Inl resp \<Rightarrow> (resp, w)
              | Inr (t', w') \<Rightarrow> (serve cfg req t' addrs, arm cfg (query req) t' w'))))"

subsection \<open>Runs in which nothing interleaves\<close>

text \<open>
  A request is handled from its first statement to its last, or time passes to an
  instant and the timers due run as \<open>advance\<close> says.
\<close>

datatype action = Request request | Advance int

fun act :: "settings \<Rightarrow> action \<Rightarrow> world \<Rightarrow> world" where
  "act cfg (Request req) w = snd (handler cfg req w)"
| "act cfg (Advance t) w = advance t w"

definition serialRun :: "settings \<Rightarrow> action list \<Rightarrow> world \<Rightarrow> world" where
  "serialRun cfg as w = fold (act cfg) as w"

subsection \<open>Handlers and callbacks that interleave\<close>

text \<open>
  Every request is served on a goroutine of its own and every callback of an
  expired timer runs on a goroutine of its own, so their operations on
  \<^verbatim>\<open>targetsMap\<close>, the timers and the engine interleave. A handler in flight is at one
  of these points: resolved (before line 224), loaded (after \<^verbatim>\<open>targetsMap.Load\<close>,
  with its result), registered (after line 234), armed (after \<^verbatim>\<open>time.AfterFunc\<close>,
  with the timer it made, before \<^verbatim>\<open>targetsMap.Store\<close>), or finished with its
  response.
\<close>

datatype stage =
    Resolved target "IPAddr list"
  | Loaded target "IPAddr list" "nat option"
  | Registered target "IPAddr list"
  | Armed target "IPAddr list" nat
  | Finished response

definition start :: "request \<Rightarrow> stage" where
  "start req = (case resolve req of Inl resp \<Rightarrow> Finished resp | Inr (t, addrs) \<Rightarrow> Resolved t addrs)"

fun stepRequest :: "settings \<Rightarrow> request \<Rightarrow> stage \<Rightarrow> world \<Rightarrow> stage \<times> world" where
  "stepRequest cfg req (Resolved t addrs) w = (Loaded t addrs (targetsMap w (query req)), w)"
| "stepRequest cfg req (Loaded t addrs to) w =
     (case registerOrStop req t addrs to w of
        Inl resp \<Rightarrow> (Finished resp, w)
      | Inr (t', w') \<Rightarrow> (Registered t' addrs, w'))"
| "stepRequest cfg req (Registered t addrs) w =
     (Armed t addrs (nextTimer w), AfterFunc cfg (query req) t w)"
| "stepRequest cfg req (Armed t addrs tid) w =
     (Finished (serve cfg req t addrs), Store (query req) tid w)"
| "stepRequest cfg req (Finished resp) w = (Finished resp, w)"

text \<open>A callback in flight: before its \<^verbatim>\<open>Delete\<close>, or between its \<^verbatim>\<open>Delete\<close> and its
  \<^verbatim>\<open>cleanUp\<close>.\<close>

datatype callback = Expired timer | Deleted timer

text \<open>
  A schedule: a request arrives under a number; the handler of a numbered request
  takes its next step; time passes to an instant, and the live timers due by then
  expire, their callbacks now in flight; the callback of a numbered timer takes its
  next step. The configuration is the shared state, the handlers in flight and the
  callbacks in flight.
\<close>

datatype event = Arrive nat request | Step nat | Tick int | Callback nat

type_synonym inflight = "nat \<rightharpoonup> request \<times> stage"

type_synonym callbacks = "nat \<rightharpoonup> callback"

fun exec :: "settings \<Rightarrow> event \<Rightarrow> world \<times> inflight \<times> callbacks \<Rightarrow> world \<times> inflight \<times> callbacks" where
  "exec cfg (Arrive n req) (w, fl, cb) = (w, fl(n \<mapsto> (req, start req)), cb)"
| "exec cfg (Step n) (w, fl, cb) =
     (case fl n of
        None \<Rightarrow> (w, fl, cb)
      | Some (req, st) \<Rightarrow>
          (let (st', w') = stepRequest cfg req st w in (w', fl(n \<mapsto> (req, st')), cb)))"
| "exec cfg (Tick t) (w, fl, cb) =
     (let due = filter (\<lambda>tm. firesAt tm \<le> max (now w) t) (timers w)
      in (fold expire due (w\<lparr>now := max (now w) t\<rparr>), fl,
          fold (\<lambda>tm c. c(timerId tm \<mapsto> Expired tm)) due cb))"
| "exec cfg (Callback n) (w, fl, cb) =
     (case cb n of
        None \<Rightarrow> (w, fl, cb)
      | Some (Expired tm) \<Rightarrow> (callbackDelete tm w, fl, cb(n \<mapsto> Deleted tm))
      | Some (Deleted tm) \<Rightarrow> (callbackCleanUp tm w, fl, cb(n := None)))"

definition schedule ::
  "settings \<Rightarrow> event list \<Rightarrow> world \<times> inflight \<times> callbacks \<Rightarrow> world \<times> inflight \<times> callbacks" where
  "schedule cfg evs c = fold (exec cfg) evs c"


section \<open>Notions the statements use\<close>

text \<open>An identity that \<^verbatim>\<open>strings.SplitN(target, " ", 3)\<close> splits into three parts.\<close>

definition threeParts :: "string \<Rightarrow> bool" where
  "threeParts tgt = (length (SplitN tgt CHR '' '' 3) = 3)"

text \<open>The collector returned without a panic and sent the sample.\<close>

definition emitted :: "panic + sample list \<Rightarrow> sample \<Rightarrow> bool" where
  "emitted r s = (case r of Inl e \<Rightarrow> False | Inr out \<Rightarrow> s \<in> set out)"

text \<open>The value \<open>v\<close> was sent through the scaled descriptor \<open>d\<close>, in one unit or the
  other, with the label values \<open>ls\<close>.\<close>

definition rttEmitted :: "panic + sample list \<Rightarrow> Desc \<Rightarrow> real \<Rightarrow> string list \<Rightarrow> bool" where
  "rttEmitted r d v ls =
     (emitted r (Sample d (Millis v) ls) \<or> emitted r (Sample d (Seconds v) ls))"

text \<open>The RTT samples sent whose first three label values are \<open>l\<close>.\<close>

definition rttSamplesFor :: "panic + sample list \<Rightarrow> string list \<Rightarrow> sample list" where
  "rttSamplesFor r l =
     (case r of
        Inl e \<Rightarrow> []
      | Inr out \<Rightarrow>
          filter (\<lambda>s. sampleDesc s \<in> set [rttDesc, bestDesc, worstDesc, meanDesc, stddevDesc]
                      \<and> take 3 (labelValues s) = l) out)"

text \<open>The loss-ratio samples sent with the label values \<open>l\<close>.\<close>

definition lossSamplesFor :: "panic + sample list \<Rightarrow> string list \<Rightarrow> sample list" where
  "lossSamplesFor r l =
     (case r of
        Inl e \<Rightarrow> []
      | Inr out \<Rightarrow> filter (\<lambda>s. sampleDesc s = lossDesc \<and> labelValues s = l) out)"

text \<open>The samples sent through the type-labelled descriptor.\<close>

definition typeLabelled :: "panic + sample list \<Rightarrow> sample list" where
  "typeLabelled r =
     (case r of Inl e \<Rightarrow> [] | Inr out \<Rightarrow> filter (\<lambda>s. sampleDesc s = rttDesc) out)"

fun inUnitInterval :: "gauge \<Rightarrow> bool" where
  "inUnitInterval (Plain (Finite r)) = (0 \<le> r \<and> r \<le> 1)"
| "inUnitInterval v = False"

text \<open>The label names of a sample paired with its label values.\<close>

definition labelPairs :: "sample \<Rightarrow> (string \<times> string) list" where
  "labelPairs s = zip (variableLabels (sampleDesc s)) (labelValues s)"

text \<open>What a scaled descriptor sends when the number of label values fits, and what
  the statements of one identity send when every construction succeeds.\<close>

definition scaledSamples :: "rttUnit \<Rightarrow> Desc \<Rightarrow> real \<Rightarrow> string list \<Rightarrow> sample list" where
  "scaledSamples sc d v ls =
     (if sc = rttInMills \<or> sc = rttBoth then [Sample d (Millis v) ls] else [])
     @ (if sc = rttInSeconds \<or> sc = rttBoth then [Sample d (Seconds v) ls] else [])"

definition targetSamples :: "settings \<Rightarrow> string list \<Rightarrow> Metrics \<Rightarrow> sample list" where
  "targetSamples cfg l m =
     (if PacketsSent m > PacketsLost m then
        (if enableDeprecatedMetrics cfg then
           scaledSamples (rttMetricsScale cfg) rttDesc (Best m) (l @ [''best''])
           @ scaledSamples (rttMetricsScale cfg) rttDesc (Worst m) (l @ [''worst''])
           @ scaledSamples (rttMetricsScale cfg) rttDesc (Mean m) (l @ [''mean''])
           @ scaledSamples (rttMetricsScale cfg) rttDesc (StdDev m) (l @ [''std_dev''])
         else [])
        @ scaledSamples (rttMetricsScale cfg) bestDesc (Best m) l
        @ scaledSamples (rttMetricsScale cfg) worstDesc (Worst m) l
        @ scaledSamples (rttMetricsScale cfg) meanDesc (Mean m) l
        @ scaledSamples (rttMetricsScale cfg) stddevDesc (StdDev m) l
      else [])
     @ [Sample lossDesc (Plain (float64_div (PacketsLost m) (PacketsSent m))) l]"

text \<open>The parts of a split put together again.\<close>

fun joinParts :: "char \<Rightarrow> string list \<Rightarrow> string" where
  "joinParts c [] = []"
| "joinParts c [x] = x"
| "joinParts c (x # y # ys) = x @ c # joinParts c (y # ys)"

text \<open>A run of the batch collector over the successive exports of the engine.\<close>

fun pingBatchCollector_Collects :: "settings \<Rightarrow> pingBatchCollector \<Rightarrow> snapshot list \<Rightarrow> pingBatchCollector" where
  "pingBatchCollector_Collects cfg p [] = p"
| "pingBatchCollector_Collects cfg p (e # es) = pingBatchCollector_Collects cfg (fst (pingBatchCollector_Collect cfg p e)) es"

text \<open>The rule of the RTT statistics for one identity and its metrics: with more packets
  sent than lost each of the four named statistics is sent with the value of the
  metrics; otherwise no RTT sample, named or type-labelled, is sent for the identity.\<close>

definition rttRule :: "panic + sample list \<Rightarrow> string \<Rightarrow> Metrics \<Rightarrow> bool" where
  "rttRule r tgt m =
     (let l = SplitN tgt CHR '' '' 3 in
      if PacketsSent m > PacketsLost m then
        rttEmitted r bestDesc (Best m) l \<and> rttEmitted r worstDesc (Worst m) l
        \<and> rttEmitted r meanDesc (Mean m) l \<and> rttEmitted r stddevDesc (StdDev m) l
      else rttSamplesFor r l = [])"

text \<open>The type-labelled sample of each statistic is sent with the value \<open>v\<close> exactly when
  the separately named sample of that statistic is.\<close>

definition sameValues :: "panic + sample list \<Rightarrow> string list \<Rightarrow> gauge \<Rightarrow> bool" where
  "sameValues r l v =
     (emitted r (Sample rttDesc v (l @ [''best''])) = emitted r (Sample bestDesc v l)
      \<and> emitted r (Sample rttDesc v (l @ [''worst''])) = emitted r (Sample worstDesc v l)
      \<and> emitted r (Sample rttDesc v (l @ [''mean''])) = emitted r (Sample meanDesc v l)
      \<and> emitted r (Sample rttDesc v (l @ [''std_dev''])) = emitted r (Sample stddevDesc v l))"

text \<open>Each of the four type-labelled samples of an identity is sent with the value of
  the metrics.\<close>

definition typeLabelledEmitted :: "panic + sample list \<Rightarrow> string \<Rightarrow> Metrics \<Rightarrow> bool" where
  "typeLabelledEmitted r tgt m =
     (let l = SplitN tgt CHR '' '' 3 in
      rttEmitted r rttDesc (Best m) (l @ [''best''])
      \<and> rttEmitted r rttDesc (Worst m) (l @ [''worst''])
      \<and> rttEmitted r rttDesc (Mean m) (l @ [''mean''])
      \<and> rttEmitted r rttDesc (StdDev m) (l @ [''std_dev'']))"

text \<open>The sample has as many label values as its descriptor has label names, its first
  three labels are \<open>target\<close>, \<open>ip\<close> and \<open>ip_version\<close> bound to the three parts of the
  identity, and it has no further label, or it is a type-labelled sample with the
  fourth label \<open>type\<close>.\<close>

definition identityLabels :: "string \<Rightarrow> sample \<Rightarrow> bool" where
  "identityLabels tgt s =
     (length (labelValues s) = length (variableLabels (sampleDesc s))
      \<and> take 3 (labelPairs s) = zip labelNames (SplitN tgt CHR '' '' 3)
      \<and> (drop 3 (labelPairs s) = []
          \<or> sampleDesc s = rttDesc
             \<and> drop 3 (labelPairs s) \<in> set [[(''type'', ''best'')], [(''type'', ''worst'')],
                  [(''type'', ''mean'')], [(''type'', ''std_dev'')]]))"

text \<open>After a request handled in the state \<open>w\<close>, the state \<open>w'\<close> has the timer of the
  request armed: the entry of the hostname is the timer made last, which is due
  after the timeout.\<close>

definition armed :: "settings \<Rightarrow> string \<Rightarrow> world \<Rightarrow> world \<Rightarrow> bool" where
  "armed cfg h w w' =
     (targetsMap w' h = Some (nextTimer w)
      \<and> timers w' \<noteq> []
      \<and> timerId (last (timers w')) = nextTimer w
      \<and> firesAt (last (timers w')) = timerWhen (now w) (timeoutDuration cfg)
      \<and> tg (last (timers w')) = h)"

text \<open>The registry and the live timers agree: no two live timers are for the same
  hostname or have the same identity, every live timer is the entry of its hostname
  and is older than the next timer to be made, and the hostnames with an entry are
  the hostnames of the live timers.\<close>

definition registryInv :: "world \<Rightarrow> bool" where
  "registryInv w =
     (distinct (map tg (timers w)) \<and> distinct (map timerId (timers w))
      \<and> list_all (\<lambda>tm. timerId tm < nextTimer w \<and> targetsMap w (tg tm) = Some (timerId tm))
           (timers w)
      \<and> dom (targetsMap w) = set (map tg (timers w)))"

text \<open>
  The rule of the loss ratio for one identity and its metrics: the loss-ratio
  samples sent for the identity are one sample, whose value is the quotient of the
  packets lost by the packets sent, not-a-number for \<open>0 / 0\<close> and the positive
  infinity for a positive number of packets lost out of none sent; with packets
  sent and no more lost than sent the value lies between 0 and 1.
\<close>

definition lossRule :: "panic + sample list \<Rightarrow> string \<Rightarrow> Metrics \<Rightarrow> bool" where
  "lossRule r tgt m =
     (let l = SplitN tgt CHR '' '' 3;
          v = (if PacketsSent m = 0 then (if PacketsLost m = 0 then NaN else PosInf)
               else Finite (real (PacketsLost m) / real (PacketsSent m)))
      in set (lossSamplesFor r l) = {Sample lossDesc (Plain v) l}
         \<and> (0 < PacketsSent m \<and> PacketsLost m \<le> PacketsSent m \<longrightarrow> inUnitInterval (Plain v)))"

subsection \<open>Concrete inputs\<close>

definition exampleSettings :: settings where
  "exampleSettings = \<lparr>enableDeprecatedMetrics = True, rttMetricsScale = rttInMills,
     targetsTimeout = 10, Targets = [''example.com'']\<rparr>"

definition exampleMetrics :: Metrics where
  "exampleMetrics = \<lparr>PacketsSent = 10, PacketsLost = 3, Best = 1, Worst = 4, Mean = 2, StdDev = 1\<rparr>"

definition idleMetrics :: Metrics where
  "idleMetrics = \<lparr>PacketsSent = 0, PacketsLost = 0, Best = 0, Worst = 0, Mean = 0, StdDev = 0\<rparr>"

definition exampleAddr :: IPAddr where
  "exampleAddr = \<lparr>IP = ''1.2.3.4'', family = ''4''\<rparr>"

definition exampleRequest :: request where
  "exampleRequest = \<lparr>query = ''example.com'', lookup = Inr [exampleAddr], rejects = None,
     export = [(''example.com 1.2.3.4 4'', exampleMetrics)]\<rparr>"

section \<open>The collectors: supporting lemmas\<close>

subsection \<open>The samples of a run without panic\<close>

lemma scaledCollect_ok:
  "length ls = length (variableLabels d) \<Longrightarrow> scaledCollect sc d v ls = Inr (scaledSamples sc d v ls)"
  by (simp add: scaledCollect_def scaledSamples_def MustNewConstMetric_def)

lemma scaledCollect_bad:
  "length ls \<noteq> length (variableLabels d) \<Longrightarrow> scaledCollect sc d v ls = Inl InconsistentCardinality"
  by (cases sc) (simp_all add: scaledCollect_def MustNewConstMetric_def)

lemma desc_labels [simp]:
  "length (variableLabels rttDesc) = 4"
  "length (variableLabels bestDesc) = 3"
  "length (variableLabels worstDesc) = 3"
  "length (variableLabels meanDesc) = 3"
  "length (variableLabels stddevDesc) = 3"
  "length (variableLabels lossDesc) = 3"
  "length (variableLabels progDesc) = 0"
  by (simp_all add: rttDesc_def bestDesc_def worstDesc_def meanDesc_def stddevDesc_def
      lossDesc_def progDesc_def newScaledDesc_def newDesc_def labelNames_def)

lemma collectTarget_ok:
  assumes "threeParts tgt"
  shows "collectTarget cfg tgt m = Inr (targetSamples cfg (SplitN tgt CHR '' '' 3) m)"
  using assms
  by (simp add: threeParts_def collectTarget_def targetSamples_def Let_def scaledCollect_ok
      MustNewConstMetric_def)

lemma collectTarget_bad:
  assumes "\<not> threeParts tgt"
  shows "collectTarget cfg tgt m = Inl InconsistentCardinality"
  using assms
  by (simp add: threeParts_def collectTarget_def Let_def scaledCollect_bad
      MustNewConstMetric_def)

lemma collectEntries_ok:
  "list_all threeParts (map fst es) \<Longrightarrow>
   emitAll (collectEntries cfg es) =
     Inr (concat (map (\<lambda>(tgt, m). targetSamples cfg (SplitN tgt CHR '' '' 3) m) es))"
  by (induction es) (auto simp: collectTarget_ok)

subsection \<open>A split determines the identity\<close>

lemma cut_Some: "cut c s = Some (a, b) \<Longrightarrow> s = a @ c # b"
  by (induction s arbitrary: a b) (auto split: if_splits option.splits)

lemma SplitN_nonempty: "0 < n \<Longrightarrow> SplitN s c n \<noteq> []"
  by (cases n) (auto split: option.splits)

lemma joinParts_SplitN: "0 < n \<Longrightarrow> joinParts c (SplitN s c n) = s"
proof (induction n arbitrary: s)
  case 0
  then show ?case by simp
next
  case (Suc n)
  show ?case
  proof (cases "n = 0")
    case True
    then show ?thesis by simp
  next
    case False
    show ?thesis
    proof (cases "cut c s")
      case None
      then show ?thesis using False by simp
    next
      case (Some ab)
      obtain a b where ab: "ab = (a, b)" by (cases ab)
      from False have n: "0 < n" by simp
      obtain y ys where ys: "SplitN b c n = y # ys"
        using SplitN_nonempty [OF n, of b c] by (cases "SplitN b c n") auto
      have "joinParts c (SplitN b c n) = b" using Suc.IH [OF n] .
      then show ?thesis using Some ab False ys cut_Some [of c s a b] by simp
    qed
  qed
qed

lemma SplitN_inj: "0 < n \<Longrightarrow> SplitN s c n = SplitN s' c n \<Longrightarrow> s = s'"
  by (metis joinParts_SplitN)

subsection \<open>What is sent, by membership\<close>

lemma descs_distinct:
  "rttDesc \<noteq> bestDesc" "rttDesc \<noteq> worstDesc" "rttDesc \<noteq> meanDesc" "rttDesc \<noteq> stddevDesc"
  "rttDesc \<noteq> lossDesc" "rttDesc \<noteq> progDesc"
  "bestDesc \<noteq> worstDesc" "bestDesc \<noteq> meanDesc" "bestDesc \<noteq> stddevDesc"
  "bestDesc \<noteq> lossDesc" "bestDesc \<noteq> progDesc"
  "worstDesc \<noteq> meanDesc" "worstDesc \<noteq> stddevDesc" "worstDesc \<noteq> lossDesc" "worstDesc \<noteq> progDesc"
  "meanDesc \<noteq> stddevDesc" "meanDesc \<noteq> lossDesc" "meanDesc \<noteq> progDesc"
  "stddevDesc \<noteq> lossDesc" "stddevDesc \<noteq> progDesc" "lossDesc \<noteq> progDesc"
  by (simp_all add: rttDesc_def bestDesc_def worstDesc_def meanDesc_def stddevDesc_def
      lossDesc_def progDesc_def newScaledDesc_def newDesc_def labelNames_def)

lemma batch_emitted_iff:
  assumes "list_all threeParts (map fst (metrics (fst (pingBatchCollector_Collect cfg p fresh))))"
  shows "emitted (snd (pingBatchCollector_Collect cfg p fresh)) s \<longleftrightarrow>
     s = Sample progDesc (Plain (Finite 1)) [] \<or>
     (\<exists>(tgt, m) \<in> set (metrics (fst (pingBatchCollector_Collect cfg p fresh))).
        s \<in> set (targetSamples cfg (SplitN tgt CHR '' '' 3) m))"
proof -
  let ?served = "metrics (fst (pingBatchCollector_Collect cfg p fresh))"
  have "snd (pingBatchCollector_Collect cfg p fresh) =
      emitAll (MustNewConstMetric progDesc (Plain (Finite 1)) [] # collectEntries cfg ?served)"
    by (simp add: pingBatchCollector_Collect_def Let_def)
  also have "\<dots> = Inr (Sample progDesc (Plain (Finite 1)) [] #
      concat (map (\<lambda>(tgt, m). targetSamples cfg (SplitN tgt CHR '' '' 3) m) ?served))"
    using collectEntries_ok [OF assms, of cfg] by (simp add: MustNewConstMetric_def)
  finally show ?thesis by (auto simp: emitted_def)
qed

lemma batch_served:
  "metrics (fst (pingBatchCollector_Collect cfg p fresh)) = (if fresh = [] then metrics p else fresh)"
  by (simp add: pingBatchCollector_Collect_def Let_def)

lemma single_emitted_iff:
  assumes "threeParts (target q)" "map_of fresh (target q) = Some m"
  shows "emitted (pingCollector_Collect cfg q fresh) s \<longleftrightarrow>
     s = Sample progDesc (Plain (Finite 1)) [] \<or>
     s \<in> set (targetSamples cfg (SplitN (target q) CHR '' '' 3) m)"
  using assms by (auto simp: pingCollector_Collect_def emitted_def collectTarget_ok MustNewConstMetric_def)

lemma loss_in_targetSamples:
  "Sample lossDesc (Plain (float64_div (PacketsLost m) (PacketsSent m))) l \<in> set (targetSamples cfg l m)"
  by (simp add: targetSamples_def)

lemma in_scaledSamples:
  "s \<in> set (scaledSamples sc d v ls) \<longleftrightarrow>
     (s = Sample d (Millis v) ls \<and> (sc = rttInMills \<or> sc = rttBoth)) \<or>
     (s = Sample d (Seconds v) ls \<and> (sc = rttInSeconds \<or> sc = rttBoth))"
  by (auto simp: scaledSamples_def)

lemma threeParts_example: "threeParts ''h 1.2.3.4 4''"
  by (simp add: threeParts_def numeral_3_eq_3)

lemma SplitN_example: "SplitN ''h 1.2.3.4 4'' CHR '' '' 3 = [''h'', ''1.2.3.4'', ''4'']"
  by (simp add: numeral_3_eq_3)

lemma batch_result:
  assumes "list_all threeParts (map fst (metrics (fst (pingBatchCollector_Collect cfg p fresh))))"
  shows "snd (pingBatchCollector_Collect cfg p fresh) =
     Inr (Sample progDesc (Plain (Finite 1)) [] #
          concat (map (\<lambda>(tgt, m). targetSamples cfg (SplitN tgt CHR '' '' 3) m)
                    (metrics (fst (pingBatchCollector_Collect cfg p fresh)))))"
proof -
  let ?served = "metrics (fst (pingBatchCollector_Collect cfg p fresh))"
  have "snd (pingBatchCollector_Collect cfg p fresh) =
      emitAll (MustNewConstMetric progDesc (Plain (Finite 1)) [] # collectEntries cfg ?served)"
    by (simp add: pingBatchCollector_Collect_def Let_def)
  then show ?thesis
    using collectEntries_ok [OF assms, of cfg] by (simp add: MustNewConstMetric_def)
qed

lemma single_result:
  assumes "threeParts (target q)" "map_of fresh (target q) = Some m"
  shows "pingCollector_Collect cfg q fresh =
     Inr (Sample progDesc (Plain (Finite 1)) [] #
          targetSamples cfg (SplitN (target q) CHR '' '' 3) m)"
  using assms by (simp add: pingCollector_Collect_def collectTarget_ok MustNewConstMetric_def)

lemma in_targetSamples:
  "s \<in> set (targetSamples cfg l m) \<longleftrightarrow>
     s = Sample lossDesc (Plain (float64_div (PacketsLost m) (PacketsSent m))) l
     \<or> (PacketsSent m > PacketsLost m \<and>
         (s \<in> set (scaledSamples (rttMetricsScale cfg) bestDesc (Best m) l)
          \<or> s \<in> set (scaledSamples (rttMetricsScale cfg) worstDesc (Worst m) l)
          \<or> s \<in> set (scaledSamples (rttMetricsScale cfg) meanDesc (Mean m) l)
          \<or> s \<in> set (scaledSamples (rttMetricsScale cfg) stddevDesc (StdDev m) l)
          \<or> (enableDeprecatedMetrics cfg \<and>
              (s \<in> set (scaledSamples (rttMetricsScale cfg) rttDesc (Best m) (l @ [''best'']))
               \<or> s \<in> set (scaledSamples (rttMetricsScale cfg) rttDesc (Worst m) (l @ [''worst'']))
               \<or> s \<in> set (scaledSamples (rttMetricsScale cfg) rttDesc (Mean m) (l @ [''mean'']))
               \<or> s \<in> set (scaledSamples (rttMetricsScale cfg) rttDesc (StdDev m) (l @ [''std_dev'']))))))"
  by (auto simp: targetSamples_def)

lemma scaledSample_shape:
  "s \<in> set (scaledSamples sc d v ls) \<Longrightarrow> sampleDesc s = d \<and> labelValues s = ls"
  by (auto simp: in_scaledSamples)

lemma rtt_in_targetSamples:
  assumes "s \<in> set (targetSamples cfg l m)"
    and "sampleDesc s \<in> set [rttDesc, bestDesc, worstDesc, meanDesc, stddevDesc]"
    and "length l = 3"
  shows "PacketsSent m > PacketsLost m \<and> take 3 (labelValues s) = l"
proof -
  from assms(1) consider
      "s = Sample lossDesc (Plain (float64_div (PacketsLost m) (PacketsSent m))) l"
    | d v ls where "PacketsSent m > PacketsLost m" "s \<in> set (scaledSamples (rttMetricsScale cfg) d v ls)"
        "ls = l \<or> (\<exists>ty. ls = l @ [ty])"
    unfolding in_targetSamples by blast
  then show ?thesis
  proof cases
    case 1
    with assms(2) show ?thesis by (simp add: descs_distinct [symmetric])
  next
    case 2
    from scaledSample_shape [OF 2(2)] 2(1,3) assms(3) show ?thesis by auto
  qed
qed

lemma rttSamplesFor_empty_iff:
  "rttSamplesFor r l = [] \<longleftrightarrow>
     (\<forall>s. emitted r s \<longrightarrow>
        \<not> (sampleDesc s \<in> set [rttDesc, bestDesc, worstDesc, meanDesc, stddevDesc]
           \<and> take 3 (labelValues s) = l))"
  by (cases r) (auto simp: rttSamplesFor_def emitted_def filter_empty_conv)

lemma rttEmitted_targetSamples:
  assumes "PacketsSent m > PacketsLost m"
  shows "\<exists>s \<in> set (targetSamples cfg l m). s = Sample bestDesc (Millis (Best m)) l \<or> s = Sample bestDesc (Seconds (Best m)) l"
    and "\<exists>s \<in> set (targetSamples cfg l m). s = Sample worstDesc (Millis (Worst m)) l \<or> s = Sample worstDesc (Seconds (Worst m)) l"
    and "\<exists>s \<in> set (targetSamples cfg l m). s = Sample meanDesc (Millis (Mean m)) l \<or> s = Sample meanDesc (Seconds (Mean m)) l"
    and "\<exists>s \<in> set (targetSamples cfg l m). s = Sample stddevDesc (Millis (StdDev m)) l \<or> s = Sample stddevDesc (Seconds (StdDev m)) l"
  using assms by (cases "rttMetricsScale cfg"; simp add: targetSamples_def scaledSamples_def)+

lemma rttRule_single_list:
  assumes "length l = 3"
  shows "(if PacketsSent m > PacketsLost m then
        rttEmitted (Inr (u # targetSamples cfg l m)) bestDesc (Best m) l
        \<and> rttEmitted (Inr (u # targetSamples cfg l m)) worstDesc (Worst m) l
        \<and> rttEmitted (Inr (u # targetSamples cfg l m)) meanDesc (Mean m) l
        \<and> rttEmitted (Inr (u # targetSamples cfg l m)) stddevDesc (StdDev m) l
      else rttSamplesFor (Inr (Sample progDesc (Plain (Finite 1)) [] # targetSamples cfg l m)) l = [])"
proof (cases "PacketsSent m > PacketsLost m")
  case True
  then show ?thesis
    using rttEmitted_targetSamples [OF True, of cfg l]
    by (auto simp: rttEmitted_def emitted_def)
next
  case False
  have "rttSamplesFor (Inr (Sample progDesc (Plain (Finite 1)) [] # targetSamples cfg l m)) l = []"
    unfolding rttSamplesFor_empty_iff
  proof (intro allI impI notI)
    fix s
    assume e: "emitted (Inr (Sample progDesc (Plain (Finite 1)) [] # targetSamples cfg l m)) s"
      and r: "sampleDesc s \<in> set [rttDesc, bestDesc, worstDesc, meanDesc, stddevDesc] \<and> take 3 (labelValues s) = l"
    from e have "s = Sample progDesc (Plain (Finite 1)) [] \<or> s \<in> set (targetSamples cfg l m)"
      by (simp add: emitted_def)
    then show False
    proof
      assume "s = Sample progDesc (Plain (Finite 1)) []"
      with r descs_distinct show False by auto
    next
      assume "s \<in> set (targetSamples cfg l m)"
      from rtt_in_targetSamples [OF this _ assms] r False show False by blast
    qed
  qed
  with False show ?thesis by simp
qed

lemma rttRule_batch:
  assumes wf: "list_all threeParts (map fst (metrics (fst (pingBatchCollector_Collect cfg p fresh))))"
    and dist: "distinct (map fst (metrics (fst (pingBatchCollector_Collect cfg p fresh))))"
    and mem: "(tgt, m) \<in> set (metrics (fst (pingBatchCollector_Collect cfg p fresh)))"
  shows "rttRule (snd (pingBatchCollector_Collect cfg p fresh)) tgt m"
proof (cases "PacketsSent m > PacketsLost m")
  case True
  let ?l = "SplitN tgt CHR '' '' 3"
  have sub: "\<And>s. s \<in> set (targetSamples cfg ?l m) \<Longrightarrow> emitted (snd (pingBatchCollector_Collect cfg p fresh)) s"
    unfolding batch_emitted_iff [OF wf] using mem by blast
  from rttEmitted_targetSamples [OF True, of cfg ?l] sub True show ?thesis
    unfolding rttRule_def rttEmitted_def Let_def by (simp; blast)
next
  case False
  let ?l = "SplitN tgt CHR '' '' 3"
  have "rttSamplesFor (snd (pingBatchCollector_Collect cfg p fresh)) ?l = []"
    unfolding rttSamplesFor_empty_iff
  proof (intro allI impI notI)
    fix s
    assume e: "emitted (snd (pingBatchCollector_Collect cfg p fresh)) s"
      and r: "sampleDesc s \<in> set [rttDesc, bestDesc, worstDesc, meanDesc, stddevDesc]
               \<and> take 3 (labelValues s) = ?l"
    from e consider "s = Sample progDesc (Plain (Finite 1)) []"
      | tgt' m' where "(tgt', m') \<in> set (metrics (fst (pingBatchCollector_Collect cfg p fresh)))"
          "s \<in> set (targetSamples cfg (SplitN tgt' CHR '' '' 3) m')"
      unfolding batch_emitted_iff [OF wf] by blast
    then show False
    proof cases
      case 1
      with r show ?thesis by (simp add: descs_distinct [symmetric])
    next
      case 2
      from 2(1) wf have "threeParts tgt'" by (auto simp: list_all_iff)
      then have len: "length (SplitN tgt' CHR '' '' 3) = 3" by (simp add: threeParts_def)
      from rtt_in_targetSamples [OF 2(2) _ len] r
      have gt: "PacketsSent m' > PacketsLost m'" and eq: "SplitN tgt' CHR '' '' 3 = ?l" by auto
      from SplitN_inj [OF _ eq] have "tgt' = tgt" by simp
      with eq_key_imp_eq_value [OF dist mem] 2(1) have "m' = m" by blast
      with gt False show False by simp
    qed
  qed
  with False show ?thesis by (simp add: rttRule_def)
qed

lemma rttRule_single:
  assumes "threeParts (target q)" "map_of fresh (target q) = Some m"
  shows "rttRule (pingCollector_Collect cfg q fresh) (target q) m"
  using rttRule_single_list [of "SplitN (target q) CHR '' '' 3" m "Sample progDesc (Plain (Finite 1)) []" cfg]
    assms(1)
  unfolding single_result [OF assms] rttRule_def Let_def threeParts_def by simp

lemma same_in_targetSamples:
  assumes "enableDeprecatedMetrics cfg"
  shows "(Sample rttDesc v (l @ [''best'']) \<in> set (targetSamples cfg l' m))
           = (Sample bestDesc v l \<in> set (targetSamples cfg l' m))"
    and "(Sample rttDesc v (l @ [''worst'']) \<in> set (targetSamples cfg l' m))
           = (Sample worstDesc v l \<in> set (targetSamples cfg l' m))"
    and "(Sample rttDesc v (l @ [''mean'']) \<in> set (targetSamples cfg l' m))
           = (Sample meanDesc v l \<in> set (targetSamples cfg l' m))"
    and "(Sample rttDesc v (l @ [''std_dev'']) \<in> set (targetSamples cfg l' m))
           = (Sample stddevDesc v l \<in> set (targetSamples cfg l' m))"
  using assms
  by (auto simp: in_targetSamples in_scaledSamples descs_distinct descs_distinct [symmetric])

lemma sameValues_lists:
  assumes "enableDeprecatedMetrics cfg"
    and "\<And>s. emitted r s \<longleftrightarrow> s = Sample progDesc (Plain (Finite 1)) [] \<or>
           (\<exists>(tgt, m) \<in> E. s \<in> set (targetSamples cfg (SplitN tgt CHR '' '' 3) m))"
  shows "sameValues r l v"
  unfolding sameValues_def assms(2)
  by (simp add: same_in_targetSamples [OF assms(1)] descs_distinct)

lemma typeLabelled_in_targetSamples:
  assumes "enableDeprecatedMetrics cfg" "PacketsSent m > PacketsLost m"
  shows "\<exists>s \<in> set (targetSamples cfg l m). s = Sample rttDesc (Millis (Best m)) (l @ [''best'']) \<or> s = Sample rttDesc (Seconds (Best m)) (l @ [''best''])"
    and "\<exists>s \<in> set (targetSamples cfg l m). s = Sample rttDesc (Millis (Worst m)) (l @ [''worst'']) \<or> s = Sample rttDesc (Seconds (Worst m)) (l @ [''worst''])"
    and "\<exists>s \<in> set (targetSamples cfg l m). s = Sample rttDesc (Millis (Mean m)) (l @ [''mean'']) \<or> s = Sample rttDesc (Seconds (Mean m)) (l @ [''mean''])"
    and "\<exists>s \<in> set (targetSamples cfg l m). s = Sample rttDesc (Millis (StdDev m)) (l @ [''std_dev'']) \<or> s = Sample rttDesc (Seconds (StdDev m)) (l @ [''std_dev''])"
  using assms by (cases "rttMetricsScale cfg"; simp add: targetSamples_def scaledSamples_def)+

lemma typeLabelledEmitted_sub:
  assumes "enableDeprecatedMetrics cfg" "PacketsSent m > PacketsLost m"
    and "\<And>s. s \<in> set (targetSamples cfg (SplitN tgt CHR '' '' 3) m) \<Longrightarrow> emitted r s"
  shows "typeLabelledEmitted r tgt m"
  using typeLabelled_in_targetSamples [OF assms(1,2), of "SplitN tgt CHR '' '' 3"] assms(3)
  unfolding typeLabelledEmitted_def rttEmitted_def Let_def by blast

lemma no_typeLabelled_in_targetSamples:
  "\<not> enableDeprecatedMetrics cfg \<Longrightarrow> s \<in> set (targetSamples cfg l m) \<Longrightarrow> sampleDesc s \<noteq> rttDesc"
  by (auto simp: in_targetSamples in_scaledSamples descs_distinct descs_distinct [symmetric])

lemma collectEntries_cases:
  "emitAll (collectEntries cfg es) = Inl InconsistentCardinality \<or>
   emitAll (collectEntries cfg es) =
     Inr (concat (map (\<lambda>(tgt, m). targetSamples cfg (SplitN tgt CHR '' '' 3) m) es))"
proof (induction es)
  case Nil
  then show ?case by simp
next
  case (Cons e es)
  obtain tgt m where e: "e = (tgt, m)" by (cases e)
  show ?case
  proof (cases "threeParts tgt")
    case True
    with Cons e show ?thesis by (auto simp: collectTarget_ok)
  next
    case False
    with e show ?thesis by (simp add: collectTarget_bad)
  qed
qed

lemma typeLabelled_disabled_batch:
  assumes "\<not> enableDeprecatedMetrics cfg"
  shows "typeLabelled (snd (pingBatchCollector_Collect cfg p fresh)) = []"
proof -
  let ?served = "metrics (fst (pingBatchCollector_Collect cfg p fresh))"
  have r: "snd (pingBatchCollector_Collect cfg p fresh) =
      emitAll (MustNewConstMetric progDesc (Plain (Finite 1)) [] # collectEntries cfg ?served)"
    by (simp add: pingBatchCollector_Collect_def Let_def)
  from collectEntries_cases [of cfg ?served] show ?thesis
  proof
    assume "emitAll (collectEntries cfg ?served) = Inl InconsistentCardinality"
    with r show ?thesis by (simp add: typeLabelled_def MustNewConstMetric_def)
  next
    assume ok: "emitAll (collectEntries cfg ?served) =
      Inr (concat (map (\<lambda>(tgt, m). targetSamples cfg (SplitN tgt CHR '' '' 3) m) ?served))"
    have "\<forall>s \<in> set (concat (map (\<lambda>(tgt, m). targetSamples cfg (SplitN tgt CHR '' '' 3) m) ?served)).
        sampleDesc s \<noteq> rttDesc"
      using no_typeLabelled_in_targetSamples [OF assms] by auto
    with r ok show ?thesis
      by (simp add: typeLabelled_def MustNewConstMetric_def filter_empty_conv descs_distinct [symmetric])
  qed
qed

lemma typeLabelled_disabled_single:
  assumes "\<not> enableDeprecatedMetrics cfg"
  shows "typeLabelled (pingCollector_Collect cfg q fresh) = []"
proof (cases "map_of fresh (target q)")
  case None
  then show ?thesis by (simp add: pingCollector_Collect_def typeLabelled_def)
next
  case (Some m)
  show ?thesis
  proof (cases "threeParts (target q)")
    case True
    have "\<forall>s \<in> set (targetSamples cfg (SplitN (target q) CHR '' '' 3) m). sampleDesc s \<noteq> rttDesc"
      using no_typeLabelled_in_targetSamples [OF assms] by auto
    then show ?thesis
      unfolding single_result [OF True Some]
      by (simp add: typeLabelled_def filter_empty_conv descs_distinct [symmetric])
  next
    case False
    with Some show ?thesis
      by (simp add: pingCollector_Collect_def collectTarget_bad typeLabelled_def MustNewConstMetric_def)
  qed
qed

lemma desc_variableLabels:
  "variableLabels rttDesc = [''target'', ''ip'', ''ip_version'', ''type'']"
  "variableLabels bestDesc = [''target'', ''ip'', ''ip_version'']"
  "variableLabels worstDesc = [''target'', ''ip'', ''ip_version'']"
  "variableLabels meanDesc = [''target'', ''ip'', ''ip_version'']"
  "variableLabels stddevDesc = [''target'', ''ip'', ''ip_version'']"
  "variableLabels lossDesc = [''target'', ''ip'', ''ip_version'']"
  "variableLabels progDesc = []"
  by (simp_all add: rttDesc_def bestDesc_def worstDesc_def meanDesc_def stddevDesc_def
      lossDesc_def progDesc_def newScaledDesc_def newDesc_def labelNames_def)

lemma identityLabels_targetSamples:
  assumes "threeParts tgt" and "s \<in> set (targetSamples cfg (SplitN tgt CHR '' '' 3) m)"
  shows "identityLabels tgt s"
proof -
  from assms(1) obtain a b c where l: "SplitN tgt CHR '' '' 3 = [a, b, c]"
    unfolding threeParts_def by (auto simp: length_Suc_conv numeral_3_eq_3)
  from assms(2) consider
      "s = Sample lossDesc (Plain (float64_div (PacketsLost m) (PacketsSent m))) [a, b, c]"
    | d v where "d \<in> {bestDesc, worstDesc, meanDesc, stddevDesc}" "s = Sample d v [a, b, c]"
    | v ty where "ty \<in> {''best'', ''worst'', ''mean'', ''std_dev''}" "s = Sample rttDesc v [a, b, c, ty]"
    unfolding in_targetSamples in_scaledSamples l by auto
  then show ?thesis
  proof cases
    case 1
    then show ?thesis
      unfolding identityLabels_def l by (simp add: labelPairs_def desc_variableLabels labelNames_def)
  next
    case 2
    then show ?thesis
      unfolding identityLabels_def l
      by (auto simp: labelPairs_def desc_variableLabels labelNames_def)
  next
    case 3
    then show ?thesis
      unfolding identityLabels_def l
      by (auto simp: labelPairs_def desc_variableLabels labelNames_def)
  qed
qed

lemma example_single_result:
  "pingCollector_Collect exampleSettings \<lparr>target = ''h 1.2.3.4 4''\<rparr> [(''h 1.2.3.4 4'', exampleMetrics)] =
     Inr (Sample progDesc (Plain (Finite 1)) [] #
          targetSamples exampleSettings [''h'', ''1.2.3.4'', ''4''] exampleMetrics)"
  using single_result [of "\<lparr>target = ''h 1.2.3.4 4''\<rparr>" "[(''h 1.2.3.4 4'', exampleMetrics)]"
      exampleMetrics exampleSettings]
  by (simp add: threeParts_example SplitN_example)

lemma example_targetSamples:
  "targetSamples exampleSettings l exampleMetrics =
     [Sample rttDesc (Millis 1) (l @ [''best'']), Sample rttDesc (Millis 4) (l @ [''worst'']),
      Sample rttDesc (Millis 2) (l @ [''mean'']), Sample rttDesc (Millis 1) (l @ [''std_dev'']),
      Sample bestDesc (Millis 1) l, Sample worstDesc (Millis 4) l,
      Sample meanDesc (Millis 2) l, Sample stddevDesc (Millis 1) l,
      Sample lossDesc (Plain (Finite (3 / 10))) l]"
  by (simp add: targetSamples_def scaledSamples_def exampleSettings_def exampleMetrics_def
      float64_div_def)

lemma pingBatchCollector_Collects_last:
  "metrics (pingBatchCollector_Collects cfg p es) = last (metrics p # filter (\<lambda>e. e \<noteq> []) es)"
  by (induction es arbitrary: p) (simp_all add: batch_served)

subsection \<open>The loss ratio of an identity\<close>

lemma loss_only_in_targetSamples:
  assumes "s \<in> set (targetSamples cfg l m)" and "sampleDesc s = lossDesc"
  shows "s = Sample lossDesc (Plain (float64_div (PacketsLost m) (PacketsSent m))) l"
proof -
  from assms(1) consider
      "s = Sample lossDesc (Plain (float64_div (PacketsLost m) (PacketsSent m))) l"
    | d v ls where "d \<in> {rttDesc, bestDesc, worstDesc, meanDesc, stddevDesc}"
        "s \<in> set (scaledSamples (rttMetricsScale cfg) d v ls)"
    unfolding in_targetSamples by blast
  then show ?thesis
  proof cases
    case 1
    then show ?thesis .
  next
    case 2
    from scaledSample_shape [OF 2(2)] assms(2) have "d = lossDesc" by simp
    with 2(1) descs_distinct show ?thesis by auto
  qed
qed

lemma lossSamplesFor_set:
  "set (lossSamplesFor r l) = {s. emitted r s \<and> sampleDesc s = lossDesc \<and> labelValues s = l}"
  by (cases r) (auto simp: lossSamplesFor_def emitted_def)

lemma lossRule_value:
  assumes "set (lossSamplesFor r (SplitN tgt CHR '' '' 3)) =
      {Sample lossDesc (Plain (float64_div (PacketsLost m) (PacketsSent m)))
         (SplitN tgt CHR '' '' 3)}"
  shows "lossRule r tgt m"
  using assms by (simp add: lossRule_def Let_def float64_div_def)

lemma lossRule_batch:
  assumes wf: "list_all threeParts (map fst (metrics (fst (pingBatchCollector_Collect cfg p fresh))))"
    and dist: "distinct (map fst (metrics (fst (pingBatchCollector_Collect cfg p fresh))))"
    and mem: "(tgt, m) \<in> set (metrics (fst (pingBatchCollector_Collect cfg p fresh)))"
  shows "lossRule (snd (pingBatchCollector_Collect cfg p fresh)) tgt m"
proof (rule lossRule_value, rule set_eqI)
  let ?l = "SplitN tgt CHR '' '' 3"
  let ?r = "snd (pingBatchCollector_Collect cfg p fresh)"
  let ?s = "Sample lossDesc (Plain (float64_div (PacketsLost m) (PacketsSent m))) ?l"
  fix s
  show "s \<in> set (lossSamplesFor ?r ?l) \<longleftrightarrow> s \<in> {?s}"
  proof
    assume "s \<in> set (lossSamplesFor ?r ?l)"
    then have e: "emitted ?r s" and d: "sampleDesc s = lossDesc" and lv: "labelValues s = ?l"
      by (simp_all add: lossSamplesFor_set)
    from e consider "s = Sample progDesc (Plain (Finite 1)) []"
      | tgt' m' where "(tgt', m') \<in> set (metrics (fst (pingBatchCollector_Collect cfg p fresh)))"
          "s \<in> set (targetSamples cfg (SplitN tgt' CHR '' '' 3) m')"
      unfolding batch_emitted_iff [OF wf] by blast
    then show "s \<in> {?s}"
    proof cases
      case 1
      with d show ?thesis by (simp add: descs_distinct [symmetric])
    next
      case 2
      from loss_only_in_targetSamples [OF 2(2) d]
      have s: "s = Sample lossDesc (Plain (float64_div (PacketsLost m') (PacketsSent m')))
          (SplitN tgt' CHR '' '' 3)" .
      with lv have "SplitN tgt' CHR '' '' 3 = ?l" by simp
      from SplitN_inj [OF _ this] have "tgt' = tgt" by simp
      with eq_key_imp_eq_value [OF dist mem] 2(1) have "m' = m" by blast
      with s \<open>tgt' = tgt\<close> show ?thesis by simp
    qed
  next
    assume "s \<in> {?s}"
    then have s: "s = ?s" by simp
    have "emitted ?r ?s"
      unfolding batch_emitted_iff [OF wf]
      using mem loss_in_targetSamples [of m ?l cfg] by blast
    with s show "s \<in> set (lossSamplesFor ?r ?l)" by (simp add: lossSamplesFor_set)
  qed
qed

lemma lossRule_single:
  assumes tp: "threeParts (target q)" and look: "map_of fresh (target q) = Some m"
  shows "lossRule (pingCollector_Collect cfg q fresh) (target q) m"
proof (rule lossRule_value, rule set_eqI)
  let ?l = "SplitN (target q) CHR '' '' 3"
  let ?r = "pingCollector_Collect cfg q fresh"
  let ?s = "Sample lossDesc (Plain (float64_div (PacketsLost m) (PacketsSent m))) ?l"
  fix s
  show "s \<in> set (lossSamplesFor ?r ?l) \<longleftrightarrow> s \<in> {?s}"
  proof
    assume "s \<in> set (lossSamplesFor ?r ?l)"
    then have e: "emitted ?r s" and d: "sampleDesc s = lossDesc"
      by (simp_all add: lossSamplesFor_set)
    from e consider "s = Sample progDesc (Plain (Finite 1)) []"
      | "s \<in> set (targetSamples cfg ?l m)"
      unfolding single_emitted_iff [OF tp look] by blast
    then show "s \<in> {?s}"
    proof cases
      case 1
      with d show ?thesis by (simp add: descs_distinct [symmetric])
    next
      case 2
      from loss_only_in_targetSamples [OF 2 d] show ?thesis by simp
    qed
  next
    assume "s \<in> {?s}"
    then have s: "s = ?s" by simp
    have "emitted ?r ?s"
      unfolding single_emitted_iff [OF tp look] using loss_in_targetSamples [of m ?l cfg] by blast
    with s show "s \<in> set (lossSamplesFor ?r ?l)" by (simp add: lossSamplesFor_set)
  qed
qed

section \<open>The handler and the timers: supporting lemmas\<close>

subsection \<open>The timeout as a duration\<close>

lemma int64_id: "- 9223372036854775808 \<le> x \<Longrightarrow> x \<le> 9223372036854775807 \<Longrightarrow> int64 x = x"
  by (simp add: int64_def)

lemma timeoutDuration_seconds:
  assumes "0 \<le> targetsTimeout cfg" "targetsTimeout cfg \<le> 9223372036"
  shows "timeoutDuration cfg = targetsTimeout cfg * 1000000000"
proof -
  from assms have a: "int64 (targetsTimeout cfg) = targetsTimeout cfg"
    by (intro int64_id) simp_all
  from assms have "int64 (targetsTimeout cfg * 1000000000) = targetsTimeout cfg * 1000000000"
    by (intro int64_id) simp_all
  with a show ?thesis by (simp add: timeoutDuration_def Second_def)
qed

lemma timerWhen_seconds:
  assumes "0 \<le> targetsTimeout cfg" "targetsTimeout cfg \<le> 9223372036"
    and "nw + targetsTimeout cfg * 1000000000 \<le> 9223372036854775807"
  shows "timerWhen nw (timeoutDuration cfg) = nw + targetsTimeout cfg * 1000000000"
  using assms by (simp add: timeoutDuration_seconds timerWhen_def)

text \<open>Above 9223372036 seconds the duration wraps around: it is negative, and the
  timer is due at once.\<close>

lemma timeout_wraps:
  "timeoutDuration (exampleSettings\<lparr>targetsTimeout := 9223372037\<rparr>) = - 9223372036709551616"
  "timerWhen nw (timeoutDuration (exampleSettings\<lparr>targetsTimeout := 9223372037\<rparr>)) = nw"
  by (simp_all add: timeoutDuration_def int64_def Second_def timerWhen_def)

subsection \<open>The branches of the handler\<close>

lemma resolve_error: "lookup req = Inl err \<Longrightarrow> resolve req = Inl (Error 400 (err @ [CHR 0x0A]))"
  by (simp add: resolve_def httpError_def)

lemma resolve_empty:
  "lookup req = Inr [] \<Longrightarrow> resolve req = Inl (Error 400 (''cannot resolve target'' @ [CHR 0x0A]))"
  by (simp add: resolve_def httpError_def)

lemma resolve_ok:
  "lookup req = Inr (a # as) \<Longrightarrow>
   resolve req = Inr (\<lparr>host = query req, addresses = [], delay = 1\<rparr>, a # as)"
  by (simp add: resolve_def)

lemma register_rejected:
  "rejects req = Some e \<Longrightarrow>
   registerOrStop req \<lparr>host = h, addresses = [], delay = d\<rparr> (a # as) None w
     = Inl (Error 500 (e @ [CHR 0x0A]))"
  by (simp add: registerOrStop_def addIfNew_def httpError_def)

lemma register_accepted:
  "rejects req = None \<Longrightarrow>
   registerOrStop req \<lparr>host = h, addresses = [], delay = d\<rparr> (a # as) None w
     = Inr (\<lparr>host = h, addresses = [a], delay = d\<rparr>,
            w\<lparr>monitor := insert (h @ '' '' @ IP a @ '' '' @ family a) (monitor w)\<rparr>)"
  by (simp add: registerOrStop_def addIfNew_def nameForIP_def)

lemma register_refresh:
  "registerOrStop req t addrs (Some tid) w = Inr (t, Stop tid w)"
  by (simp add: registerOrStop_def)

lemma handler_new:
  assumes "query req \<noteq> []" "lookup req = Inr (a # as)" "targetsMap w (query req) = None"
    "rejects req = None"
  shows "handler cfg req w =
     (serve cfg req \<lparr>host = query req, addresses = [a], delay = 1\<rparr> (a # as),
      arm cfg (query req) \<lparr>host = query req, addresses = [a], delay = 1\<rparr>
        (w\<lparr>monitor := insert (query req @ '' '' @ IP a @ '' '' @ family a) (monitor w)\<rparr>))"
  using assms by (simp add: handler_def resolve_ok register_accepted)

lemma handler_refresh:
  assumes "query req \<noteq> []" "lookup req = Inr (a # as)" "targetsMap w (query req) = Some tid"
  shows "handler cfg req w =
     (serve cfg req \<lparr>host = query req, addresses = [], delay = 1\<rparr> (a # as),
      arm cfg (query req) \<lparr>host = query req, addresses = [], delay = 1\<rparr> (Stop tid w))"
  using assms by (simp add: handler_def resolve_ok register_refresh)

lemma serve_identity:
  "serve cfg req \<lparr>host = h, addresses = xs, delay = d\<rparr> (a # as) =
     Served (pingCollector_Collect cfg \<lparr>target = h @ '' '' @ IP a @ '' '' @ family a\<rparr> (export req))"
  by (simp add: serve_def nameForIP_def)

lemma arm_entry:
  "targetsMap (arm cfg h t w) h = Some (nextTimer w)"
  "timers (arm cfg h t w) =
     timers w @ [\<lparr>timerId = nextTimer w, firesAt = timerWhen (now w) (timeoutDuration cfg), tg = h, owner = t\<rparr>]"
  "monitor (arm cfg h t w) = monitor w"
  by (simp_all add: arm_def AfterFunc_def Store_def)

subsection \<open>The registry invariant\<close>

text \<open>The invariant holds initially and is kept by every request handled without
  interleaving and by every firing of due timers.\<close>

lemma registryInv_initial: "registryInv initialWorld"
  by (simp add: registryInv_def initialWorld_def)



lemma registryInv_batch: "registryInv (w\<lparr>batch := b\<rparr>) = registryInv w"
  by (simp add: registryInv_def)

lemma registryInv_monitor: "registryInv (w\<lparr>monitor := m\<rparr>) = registryInv w"
  by (simp add: registryInv_def)


lemma registryInv_arm_new:
  assumes "registryInv w" "targetsMap w h = None"
  shows "registryInv (arm cfg h t w)"
proof -
  from assms have notin: "h \<notin> set (map tg (timers w))"
    unfolding registryInv_def by (metis domIff)
  from assms(1) have ids: "\<forall>tm \<in> set (timers w). timerId tm < nextTimer w"
    and ent: "\<forall>tm \<in> set (timers w). targetsMap w (tg tm) = Some (timerId tm)"
    unfolding registryInv_def by (auto simp: list_all_iff)
  from ids have fresh: "nextTimer w \<notin> set (map timerId (timers w))" by auto
  from assms(1) notin fresh ids ent show ?thesis
    unfolding registryInv_def by (auto simp: arm_def AfterFunc_def Store_def list_all_iff)
qed

lemma registryInv_Stop:
  assumes "registryInv w" "targetsMap w h = Some tid"
  shows "registryInv ((Stop tid w)\<lparr>targetsMap := (targetsMap w)(h := None)\<rparr>)"
    and "nextTimer (Stop tid w) = nextTimer w"
    and "timers (Stop tid w) = filter (\<lambda>tm. tg tm \<noteq> h) (timers w)"
proof -
  from assms(1) have dt: "distinct (map tg (timers w))" and di: "distinct (map timerId (timers w))"
    and ids: "\<forall>tm \<in> set (timers w). timerId tm < nextTimer w"
    and ent: "\<forall>tm \<in> set (timers w). targetsMap w (tg tm) = Some (timerId tm)"
    and dm: "dom (targetsMap w) = set (map tg (timers w))"
    unfolding registryInv_def by (auto simp: list_all_iff)
  have same: "\<forall>tm \<in> set (timers w). (timerId tm \<noteq> tid) = (tg tm \<noteq> h)"
  proof
    fix tm assume tm: "tm \<in> set (timers w)"
    from assms(2) dm obtain tm0 where tm0: "tm0 \<in> set (timers w)" "tg tm0 = h"
      by (metis domI imageE set_map)
    with ent assms(2) have id0: "timerId tm0 = tid" by auto
    show "(timerId tm \<noteq> tid) = (tg tm \<noteq> h)"
    proof
      assume "timerId tm \<noteq> tid"
      with ent tm assms(2) show "tg tm \<noteq> h" by auto
    next
      assume "tg tm \<noteq> h"
      with tm0 have "tm \<noteq> tm0" by auto
      with di tm tm0(1) have "timerId tm \<noteq> timerId tm0"
        by (meson distinct_map inj_onD)
      with id0 show "timerId tm \<noteq> tid" by simp
    qed
  qed
  then show t: "timers (Stop tid w) = filter (\<lambda>tm. tg tm \<noteq> h) (timers w)"
    by (auto simp: Stop_def intro: filter_cong)
  show "nextTimer (Stop tid w) = nextTimer w" by (simp add: Stop_def)
  have m: "targetsMap (Stop tid w) = targetsMap w" by (simp add: Stop_def)
  have n: "nextTimer (Stop tid w) = nextTimer w" by (simp add: Stop_def)
  from dt di ids ent dm show "registryInv ((Stop tid w)\<lparr>targetsMap := (targetsMap w)(h := None)\<rparr>)"
    unfolding registryInv_def
    by (auto simp: t n list_all_iff distinct_map_filter)
qed

lemma arm_after_delete:
  "arm cfg h t (w\<lparr>targetsMap := (targetsMap w)(h := None)\<rparr>) = arm cfg h t w"
  by (simp add: arm_def AfterFunc_def Store_def)

lemma Stop_targetsMap_update:
  "(Stop tid w)\<lparr>targetsMap := m\<rparr> = Stop tid (w\<lparr>targetsMap := m\<rparr>)"
  "targetsMap (Stop tid w) = targetsMap w"
  by (simp_all add: Stop_def)

lemma registryInv_arm_refresh:
  assumes "registryInv w" "targetsMap w h = Some tid"
  shows "registryInv (arm cfg h t (Stop tid w))"
proof -
  let ?w = "(Stop tid w)\<lparr>targetsMap := (targetsMap w)(h := None)\<rparr>"
  have "registryInv ?w" by (rule registryInv_Stop(1) [OF assms])
  moreover have "targetsMap ?w h = None" by simp
  ultimately have "registryInv (arm cfg h t ?w)" by (rule registryInv_arm_new)
  moreover have "arm cfg h t ?w = arm cfg h t (Stop tid w)"
    using arm_after_delete [of cfg h t "Stop tid w"] by (simp add: Stop_targetsMap_update)
  ultimately show ?thesis by simp
qed

lemma handler_cases:
  "(\<exists>b. snd (handler cfg req w) = w\<lparr>batch := b\<rparr>)
   \<or> snd (handler cfg req w) = w
   \<or> (\<exists>t m. targetsMap w (query req) = None
         \<and> snd (handler cfg req w) = arm cfg (query req) t (w\<lparr>monitor := m\<rparr>))
   \<or> (\<exists>t tid. targetsMap w (query req) = Some tid
         \<and> snd (handler cfg req w) = arm cfg (query req) t (Stop tid w))"
proof (cases "query req = []")
  case True
  then show ?thesis by (auto simp: handler_def Let_def split: prod.splits)
next
  case False
  show ?thesis
  proof (cases "resolve req")
    case (Inl resp)
    with False show ?thesis by (simp add: handler_def)
  next
    case (Inr ta)
    obtain t addrs where ta: "ta = (t, addrs)" by (cases ta)
    show ?thesis
    proof (cases "targetsMap w (query req)")
      case None
      with False Inr ta show ?thesis
        by (auto simp: handler_def registerOrStop_def split: prod.splits option.splits)
    next
      case (Some tid)
      with False Inr ta show ?thesis
        by (auto simp: handler_def registerOrStop_def)
    qed
  qed
qed

lemma registryInv_handler:
  assumes "registryInv w"
  shows "registryInv (snd (handler cfg req w))"
proof -
  from handler_cases [of cfg req w] consider
      b where "snd (handler cfg req w) = w\<lparr>batch := b\<rparr>"
    | "snd (handler cfg req w) = w"
    | t m where "targetsMap w (query req) = None"
        "snd (handler cfg req w) = arm cfg (query req) t (w\<lparr>monitor := m\<rparr>)"
    | t tid where "targetsMap w (query req) = Some tid"
        "snd (handler cfg req w) = arm cfg (query req) t (Stop tid w)"
    by blast
  then show ?thesis
  proof cases
    case 1
    with assms show ?thesis by (simp add: registryInv_batch)
  next
    case 2
    with assms show ?thesis by simp
  next
    case 3
    from assms have "registryInv (w\<lparr>monitor := m\<rparr>)" by (simp add: registryInv_monitor)
    moreover from 3(1) have "targetsMap (w\<lparr>monitor := m\<rparr>) (query req) = None" by simp
    ultimately have "registryInv (arm cfg (query req) t (w\<lparr>monitor := m\<rparr>))"
      by (rule registryInv_arm_new)
    with 3(2) show ?thesis by simp
  next
    case 4
    from registryInv_arm_refresh [OF assms 4(1)] 4(2) show ?thesis by simp
  qed
qed








subsection \<open>A request for a hostname with a live entry\<close>


subsection \<open>Runs on the concrete inputs\<close>

lemma example_run:
  "serialRun exampleSettings [Request exampleRequest, Advance (2 * Second)] initialWorld =
     \<lparr>now = 2000000000, targetsMap = [''example.com'' \<mapsto> 0],
      timers = [\<lparr>timerId = 0, firesAt = 10000000000, tg = ''example.com'',
                 owner = \<lparr>host = ''example.com'', addresses = [exampleAddr], delay = 1\<rparr>\<rparr>],
      nextTimer = 1, monitor = {''example.com 1.2.3.4 4''}, batch = \<lparr>metrics = []\<rparr>\<rparr>"
  by (simp add: serialRun_def handler_def exampleRequest_def exampleSettings_def initialWorld_def
      resolve_def registerOrStop_def addIfNew_def arm_def AfterFunc_def Store_def advance_def
      timeoutDuration_def int64_def timerWhen_def Second_def nameForIP_def exampleAddr_def)

text \<open>A schedule that lets one handler take all its steps with nothing in between
  is the handler.\<close>

lemma handler_as_schedule:
  assumes "query req \<noteq> []"
  shows "fst (schedule cfg [Arrive n req, Step n, Step n, Step n, Step n] (w, fl, cb))
           = snd (handler cfg req w)"
proof (cases "resolve req")
  case (Inl resp)
  with assms show ?thesis by (simp add: schedule_def start_def handler_def arm_def AfterFunc_def Store_def)
next
  case (Inr ta)
  obtain t addrs where ta: "ta = (t, addrs)" by (cases ta)
  show ?thesis
  proof (cases "registerOrStop req t addrs (targetsMap w (query req)) w")
    case (Inl resp)
    with assms Inr ta show ?thesis by (simp add: schedule_def start_def handler_def arm_def AfterFunc_def Store_def)
  next
    case (Inr tw)
    obtain t' w' where tw: "tw = (t', w')" by (cases tw)
    from assms \<open>resolve req = Inr ta\<close> ta Inr tw show ?thesis
      by (simp add: schedule_def start_def handler_def arm_def AfterFunc_def Store_def)
  qed
qed

text \<open>A schedule that lets the callback of an expired timer take its two steps with
  nothing in between is the rest of \<open>fire\<close>.\<close>

lemma fire_as_schedule:
  assumes "cb n = Some (Expired tm)"
  shows "fst (schedule cfg [Callback n, Callback n] (expire tm w, fl, cb)) = fire tm w"
  using assms by (simp add: schedule_def fire_def)

subsection \<open>The static target list is not read\<close>

lemma collectTarget_Targets: "collectTarget (cfg\<lparr>Targets := ts\<rparr>) tgt m = collectTarget cfg tgt m"
  by (simp add: collectTarget_def Let_def)

lemma collectEntries_Targets: "collectEntries (cfg\<lparr>Targets := ts\<rparr>) es = collectEntries cfg es"
  by (induction es) (auto simp: collectTarget_Targets)

lemma pingBatchCollector_Collect_Targets: "pingBatchCollector_Collect (cfg\<lparr>Targets := ts\<rparr>) p fresh = pingBatchCollector_Collect cfg p fresh"
  by (simp add: pingBatchCollector_Collect_def Let_def collectEntries_Targets)

lemma serve_Targets: "serve (cfg\<lparr>Targets := ts\<rparr>) req t addrs = serve cfg req t addrs"
  by (simp add: serve_def pingCollector_Collect_def collectTarget_Targets split: option.split)

lemma arm_Targets: "arm (cfg\<lparr>Targets := ts\<rparr>) h t w = arm cfg h t w"
  by (simp add: arm_def AfterFunc_def Store_def timeoutDuration_def)

lemma handler_Targets: "handler (cfg\<lparr>Targets := ts\<rparr>) req w = handler cfg req w"
  by (simp add: handler_def pingBatchCollector_Collect_Targets serve_Targets arm_Targets
      split: sum.split prod.split)

lemma example_first_request:
  "snd (handler exampleSettings exampleRequest (startedWorld {''example.com 1.2.3.4 4''})) =
     \<lparr>now = 0, targetsMap = [''example.com'' \<mapsto> 0],
      timers = [\<lparr>timerId = 0, firesAt = 10000000000, tg = ''example.com'',
                 owner = \<lparr>host = ''example.com'', addresses = [exampleAddr], delay = 1\<rparr>\<rparr>],
      nextTimer = 1, monitor = {''example.com 1.2.3.4 4''}, batch = \<lparr>metrics = []\<rparr>\<rparr>"
  by (simp add: handler_def exampleRequest_def exampleSettings_def initialWorld_def
      startedWorld_def resolve_def registerOrStop_def addIfNew_def arm_def AfterFunc_def
      Store_def timeoutDuration_def int64_def timerWhen_def Second_def
      nameForIP_def exampleAddr_def)

subsection \<open>Sliding expiry of an entry\<close>

text \<open>
  In runs in which nothing interleaves: after a request that arms the timer of a
  hostname, the entry is still there at any instant before the timer is due
  (\<open>requested_in_time_stays\<close>), and it is gone at any instant from then on
  (\<open>idle_entry_removed\<close>).
\<close>

lemma fire_targetsMap: "targetsMap (fire tm w) = (targetsMap w)(tg tm := None)"
  by (simp add: fire_def expire_def callbackDelete_def callbackCleanUp_def)

lemma fold_fire_targetsMap_other:
  "\<forall>d \<in> set ds. tg d \<noteq> h \<Longrightarrow> targetsMap (fold fire ds w) h = targetsMap w h"
  by (induction ds arbitrary: w) (auto simp: fire_targetsMap)

lemma fold_fire_targetsMap_fired:
  "d \<in> set ds \<Longrightarrow> targetsMap (fold fire ds w) (tg d) = None"
proof (induction ds arbitrary: w d)
  case Nil
  then show ?case by simp
next
  case (Cons x xs)
  show ?case
  proof (cases "d \<in> set xs")
    case True
    with Cons.IH show ?thesis by simp
  next
    case False
    with Cons.prems have dx: "d = x" by simp
    show ?thesis
    proof (cases "\<forall>y \<in> set xs. tg y \<noteq> tg d")
      case True
      from fold_fire_targetsMap_other [OF True, of "fire x w"] dx show ?thesis
        by (simp add: fire_targetsMap)
    next
      case False
      then obtain y where "y \<in> set xs" "tg y = tg d" by auto
      with Cons.IH [of y "fire x w"] show ?thesis by simp
    qed
  qed
qed

lemma handler_arms:
  assumes "query req \<noteq> []" "lookup req = Inr (a # as)"
    and "targetsMap w (query req) = None \<and> rejects req = None
         \<or> targetsMap w (query req) = Some tid"
  shows "armed cfg (query req) w (snd (handler cfg req w))"
    and "now (snd (handler cfg req w)) = now w"
  using assms by (auto simp: handler_new handler_refresh armed_def arm_def AfterFunc_def Store_def Stop_def)

lemma armed_only_timer:
  assumes inv: "registryInv w'" and ar: "armed cfg h w w'"
    and tm: "tm \<in> set (timers w')" "tg tm = h"
  shows "firesAt tm = timerWhen (now w) (timeoutDuration cfg)"
proof -
  from ar have ne: "timers w' \<noteq> []" and l: "tg (last (timers w')) = h"
    and f: "firesAt (last (timers w')) = timerWhen (now w) (timeoutDuration cfg)"
    by (simp_all add: armed_def)
  from inv have "distinct (map tg (timers w'))" by (simp add: registryInv_def)
  then have "inj_on tg (set (timers w'))" by (simp add: distinct_map)
  with tm l ne have "tm = last (timers w')" by (auto dest: inj_onD)
  with f show ?thesis by simp
qed

lemma requested_in_time_stays:
  assumes inv: "registryInv w" and q: "query req \<noteq> []" and l: "lookup req = Inr (a # as)"
    and ok: "targetsMap w (query req) = None \<and> rejects req = None
         \<or> targetsMap w (query req) = Some tid"
    and t: "t < timerWhen (now w) (timeoutDuration cfg)"
    and T: "now w < timerWhen (now w) (timeoutDuration cfg)"
  shows "targetsMap (advance t (snd (handler cfg req w))) (query req) = Some (nextTimer w)"
proof -
  let ?w' = "snd (handler cfg req w)"
  have inv': "registryInv ?w'" by (rule registryInv_handler [OF inv])
  have ar: "armed cfg (query req) w ?w'" and nw: "now ?w' = now w"
    by (rule handler_arms [OF q l ok])+
  let ?ds = "filter (\<lambda>tm. firesAt tm \<le> max (now ?w') t) (timers ?w')"
  have "\<forall>d \<in> set ?ds. tg d \<noteq> query req"
  proof (intro ballI notI)
    fix d assume d: "d \<in> set ?ds" and e: "tg d = query req"
    then have "d \<in> set (timers ?w')" and due: "firesAt d \<le> max (now ?w') t" by simp_all
    from armed_only_timer [OF inv' ar this(1) e] due nw t T show False by simp
  qed
  from fold_fire_targetsMap_other [OF this] ar show ?thesis
    by (simp add: advance_def armed_def)
qed

lemma idle_entry_removed:
  assumes inv: "registryInv w" and q: "query req \<noteq> []" and l: "lookup req = Inr (a # as)"
    and ok: "targetsMap w (query req) = None \<and> rejects req = None
         \<or> targetsMap w (query req) = Some tid"
    and t: "timerWhen (now w) (timeoutDuration cfg) \<le> t"
  shows "targetsMap (advance t (snd (handler cfg req w))) (query req) = None"
proof -
  let ?w' = "snd (handler cfg req w)"
  have ar: "armed cfg (query req) w ?w'" and nw: "now ?w' = now w"
    by (rule handler_arms [OF q l ok])+
  let ?ds = "filter (\<lambda>tm. firesAt tm \<le> max (now ?w') t) (timers ?w')"
  from ar have ne: "timers ?w' \<noteq> []" and lt: "tg (last (timers ?w')) = query req"
    and f: "firesAt (last (timers ?w')) = timerWhen (now w) (timeoutDuration cfg)"
    by (simp_all add: armed_def)
  from ne f t have "last (timers ?w') \<in> set ?ds" by simp
  from fold_fire_targetsMap_fired [OF this] lt show ?thesis by (simp add: advance_def)
qed

subsection \<open>The state a served request leaves\<close>

lemma handler_new_state:
  assumes "query req \<noteq> []" "lookup req = Inr (a # as)" "targetsMap w (query req) = None"
    "rejects req = None"
    and "0 \<le> targetsTimeout cfg" "targetsTimeout cfg \<le> 9223372036"
    and "now w + targetsTimeout cfg * 1000000000 \<le> 9223372036854775807"
  shows "snd (handler cfg req w) =
     w\<lparr>timers := timers w @
          [\<lparr>timerId = nextTimer w, firesAt = now w + targetsTimeout cfg * 1000000000,
            tg = query req, owner = \<lparr>host = query req, addresses = [a], delay = 1\<rparr>\<rparr>],
       nextTimer := Suc (nextTimer w),
       targetsMap := (targetsMap w)(query req \<mapsto> nextTimer w),
       monitor := insert (query req @ '' '' @ IP a @ '' '' @ family a) (monitor w)\<rparr>"
  using assms(5-7)
  by (simp add: handler_new [OF assms(1-4)] arm_def AfterFunc_def Store_def timerWhen_seconds)

lemma handler_refresh_state:
  assumes "query req \<noteq> []" "lookup req = Inr (a # as)" "targetsMap w (query req) = Some tid"
    and "0 \<le> targetsTimeout cfg" "targetsTimeout cfg \<le> 9223372036"
    and "now w + targetsTimeout cfg * 1000000000 \<le> 9223372036854775807"
  shows "snd (handler cfg req w) =
     w\<lparr>timers := filter (\<lambda>x. timerId x \<noteq> tid) (timers w) @
          [\<lparr>timerId = nextTimer w, firesAt = now w + targetsTimeout cfg * 1000000000,
            tg = query req, owner = \<lparr>host = query req, addresses = [], delay = 1\<rparr>\<rparr>],
       nextTimer := Suc (nextTimer w),
       targetsMap := (targetsMap w)(query req \<mapsto> nextTimer w)\<rparr>"
  using assms(4-6)
  by (simp add: handler_refresh [OF assms(1-3)] arm_def AfterFunc_def Store_def Stop_def
      timerWhen_seconds)

section \<open>The claims about the metrics bridge\<close>

text \<open>
  C1, as amended. In batch mode every export call pulls a fresh snapshot: a
  non-empty pull replaces the cached snapshot, an empty pull leaves it, and the
  call renders the cached snapshot, so that an empty pull renders what a pull equal
  to the cache would; over a run of calls the cache is the last non-empty export
  (the initial cache before there is one). In single-target mode there is no cache:
  the collector renders the fresh pull alone, and an empty pull sends nothing.
\<close>

theorem batch_serves_last_nonempty:
  "metrics (fst (pingBatchCollector_Collect cfg p fresh)) = (if fresh = [] then metrics p else fresh)
   \<and> snd (pingBatchCollector_Collect cfg p fresh) =
       emitAll (MustNewConstMetric progDesc (Plain (Finite 1)) []
                # collectEntries cfg (metrics (fst (pingBatchCollector_Collect cfg p fresh))))
   \<and> snd (pingBatchCollector_Collect cfg p []) = snd (pingBatchCollector_Collect cfg p (metrics p))
   \<and> metrics (pingBatchCollector_Collects cfg p es) = last (metrics p # filter (\<lambda>e. e \<noteq> []) es)
   \<and> pingCollector_Collect cfg q [] = Inr []"
proof (intro conjI)
  show "metrics (fst (pingBatchCollector_Collect cfg p fresh)) = (if fresh = [] then metrics p else fresh)"
    by (rule batch_served)
  show "snd (pingBatchCollector_Collect cfg p fresh) =
       emitAll (MustNewConstMetric progDesc (Plain (Finite 1)) []
                # collectEntries cfg (metrics (fst (pingBatchCollector_Collect cfg p fresh))))"
    by (simp add: pingBatchCollector_Collect_def Let_def)
  have out: "\<And>x. snd (pingBatchCollector_Collect cfg p x) =
       emitAll (MustNewConstMetric progDesc (Plain (Finite 1)) []
                # collectEntries cfg (metrics (fst (pingBatchCollector_Collect cfg p x))))"
    by (simp add: pingBatchCollector_Collect_def Let_def)
  have "metrics (fst (pingBatchCollector_Collect cfg p [])) = metrics (fst (pingBatchCollector_Collect cfg p (metrics p)))"
    by (simp add: batch_served)
  then show "snd (pingBatchCollector_Collect cfg p []) = snd (pingBatchCollector_Collect cfg p (metrics p))"
    using out [of "[]"] out [of "metrics p"] by simp
  show "metrics (pingBatchCollector_Collects cfg p es) = last (metrics p # filter (\<lambda>e. e \<noteq> []) es)"
    by (rule pingBatchCollector_Collects_last)
  show "pingCollector_Collect cfg q [] = Inr []"
    by (simp add: pingCollector_Collect_def)
qed

text \<open>
  The claim as stated (both render modes serve the last non-empty snapshot when the
  fresh pull is empty) fails in single-target mode: after a pull that rendered the
  loss ratio of the identity, an empty pull renders nothing.
\<close>

theorem single_has_no_cache_counterexample:
  "emitted (pingCollector_Collect exampleSettings \<lparr>target = ''h 1.2.3.4 4''\<rparr>
       [(''h 1.2.3.4 4'', exampleMetrics)])
     (Sample lossDesc (Plain (Finite (3 / 10))) [''h'', ''1.2.3.4'', ''4''])
   \<and> pingCollector_Collect exampleSettings \<lparr>target = ''h 1.2.3.4 4''\<rparr> [] = Inr []
   \<and> pingCollector_Collect exampleSettings \<lparr>target = ''h 1.2.3.4 4''\<rparr> []
       \<noteq> pingCollector_Collect exampleSettings \<lparr>target = ''h 1.2.3.4 4''\<rparr>
            [(''h 1.2.3.4 4'', exampleMetrics)]"
  by (simp add: example_single_result example_targetSamples emitted_def)
    (simp add: pingCollector_Collect_def)

text \<open>
  C2. For every identity of a rendered snapshot, in batch mode (the entries of the
  served snapshot, whose keys are distinct as the keys of a map) and in
  single-target mode (the requested identity), the four RTT statistics best, worst,
  mean and standard deviation are sent with the values of the metrics when
  \<open>PacketsSent > PacketsLost\<close>, and no RTT sample at all is sent for the identity
  when \<open>PacketsSent \<le> PacketsLost\<close>. The identities are taken to split into three
  parts, as the label count of the descriptors requires.
\<close>

theorem rtt_only_with_answers:
  "(list_all threeParts (map fst (metrics (fst (pingBatchCollector_Collect cfg p fresh))))
      \<and> distinct (map fst (metrics (fst (pingBatchCollector_Collect cfg p fresh)))) \<longrightarrow>
      (\<forall>(tgt, m) \<in> set (metrics (fst (pingBatchCollector_Collect cfg p fresh))).
         rttRule (snd (pingBatchCollector_Collect cfg p fresh)) tgt m))
   \<and> (threeParts (target q) \<and> map_of fresh' (target q) = Some m' \<longrightarrow>
        rttRule (pingCollector_Collect cfg q fresh') (target q) m')"
  using rttRule_batch [of cfg p fresh] rttRule_single [of q fresh' m' cfg] by blast

theorem rtt_only_with_answers_witness:
  "rttEmitted (snd (pingBatchCollector_Collect exampleSettings \<lparr>metrics = []\<rparr>
        [(''h 1.2.3.4 4'', exampleMetrics), (''a 10.0.0.1 4'', idleMetrics)]))
      bestDesc 1 [''h'', ''1.2.3.4'', ''4'']
   \<and> rttSamplesFor (snd (pingBatchCollector_Collect exampleSettings \<lparr>metrics = []\<rparr>
        [(''h 1.2.3.4 4'', exampleMetrics), (''a 10.0.0.1 4'', idleMetrics)]))
      [''a'', ''10.0.0.1'', ''4''] = []
   \<and> rttSamplesFor (pingCollector_Collect exampleSettings \<lparr>target = ''a 10.0.0.1 4''\<rparr>
        [(''a 10.0.0.1 4'', idleMetrics)])
      [''a'', ''10.0.0.1'', ''4''] = []"
proof -
  let ?fresh = "[(''h 1.2.3.4 4'', exampleMetrics), (''a 10.0.0.1 4'', idleMetrics)]"
  let ?fresh' = "[(''a 10.0.0.1 4'', idleMetrics)]"
  let ?q = "\<lparr>target = ''a 10.0.0.1 4''\<rparr>"
  let ?r = "snd (pingBatchCollector_Collect exampleSettings \<lparr>metrics = []\<rparr> ?fresh)"
  note T = rtt_only_with_answers [of exampleSettings "\<lparr>metrics = []\<rparr>" ?fresh ?q ?fresh' idleMetrics]
  have served: "metrics (fst (pingBatchCollector_Collect exampleSettings \<lparr>metrics = []\<rparr> ?fresh)) = ?fresh"
    by (simp add: batch_served)
  have tp: "threeParts ''a 10.0.0.1 4''" by (simp add: threeParts_def numeral_3_eq_3)
  have sp: "SplitN ''a 10.0.0.1 4'' CHR '' '' 3 = [''a'', ''10.0.0.1'', ''4'']"
    by (simp add: numeral_3_eq_3)
  have h1: "list_all threeParts (map fst ?fresh) \<and> distinct (map fst ?fresh)"
    by (simp add: threeParts_example tp)
  have h2: "threeParts (target ?q) \<and> map_of ?fresh' (target ?q) = Some idleMetrics"
    by (simp add: tp)
  from T h1 have "\<forall>(tgt, m) \<in> set ?fresh. rttRule ?r tgt m"
    unfolding served by blast
  then have "rttRule ?r ''h 1.2.3.4 4'' exampleMetrics" and "rttRule ?r ''a 10.0.0.1 4'' idleMetrics"
    by simp_all
  then have a: "rttEmitted ?r bestDesc 1 [''h'', ''1.2.3.4'', ''4'']"
    and b: "rttSamplesFor ?r [''a'', ''10.0.0.1'', ''4''] = []"
    by (simp_all add: rttRule_def Let_def SplitN_example sp exampleMetrics_def idleMetrics_def)
  from T h2 have "rttRule (pingCollector_Collect exampleSettings ?q ?fresh') (target ?q) idleMetrics"
    by blast
  then have c: "rttSamplesFor (pingCollector_Collect exampleSettings ?q ?fresh') [''a'', ''10.0.0.1'', ''4''] = []"
    by (simp add: rttRule_def Let_def sp idleMetrics_def)
  from a b c show ?thesis by blast
qed

text \<open>
  C3. For every identity rendered, in batch mode (every entry of the served
  snapshot, whose keys are distinct as the keys of a map) and in single-target mode
  (the requested identity, when the fresh snapshot has it), the loss-ratio samples
  sent for the identity are exactly one sample, whatever the counters are, and its
  value is \<open>PacketsLost / PacketsSent\<close>: the quotient when \<open>PacketsSent > 0\<close>,
  not-a-number for \<open>0 / 0\<close>, the positive infinity for \<open>x / 0\<close> with \<open>x > 0\<close>; when
  \<open>PacketsSent > 0\<close> and \<open>PacketsLost \<le> PacketsSent\<close> the value lies in \<open>[0, 1]\<close>. The
  identities are taken to split into three parts, as the label count of the
  descriptor requires.
\<close>

theorem loss_ratio_emitted:
  "(list_all threeParts (map fst (metrics (fst (pingBatchCollector_Collect cfg p fresh))))
      \<and> distinct (map fst (metrics (fst (pingBatchCollector_Collect cfg p fresh)))) \<longrightarrow>
      (\<forall>(tgt, m) \<in> set (metrics (fst (pingBatchCollector_Collect cfg p fresh))).
         lossRule (snd (pingBatchCollector_Collect cfg p fresh)) tgt m))
   \<and> (threeParts (target q) \<and> map_of fresh' (target q) = Some m' \<longrightarrow>
        lossRule (pingCollector_Collect cfg q fresh') (target q) m')"
  using lossRule_batch [of cfg p fresh] lossRule_single [of q fresh' m' cfg] by blast

theorem loss_ratio_emitted_witness:
  "set (lossSamplesFor (snd (pingBatchCollector_Collect exampleSettings \<lparr>metrics = []\<rparr>
        [(''h 1.2.3.4 4'', exampleMetrics), (''a 10.0.0.1 4'', idleMetrics)]))
      [''a'', ''10.0.0.1'', ''4''])
     = {Sample lossDesc (Plain NaN) [''a'', ''10.0.0.1'', ''4'']}
   \<and> set (lossSamplesFor (snd (pingBatchCollector_Collect exampleSettings \<lparr>metrics = []\<rparr>
        [(''h 1.2.3.4 4'', exampleMetrics), (''a 10.0.0.1 4'', idleMetrics)]))
      [''h'', ''1.2.3.4'', ''4''])
     = {Sample lossDesc (Plain (Finite (3 / 10))) [''h'', ''1.2.3.4'', ''4'']}
   \<and> set (lossSamplesFor (pingCollector_Collect exampleSettings \<lparr>target = ''h 1.2.3.4 4''\<rparr>
        [(''h 1.2.3.4 4'', exampleMetrics)]) [''h'', ''1.2.3.4'', ''4''])
     = {Sample lossDesc (Plain (Finite (3 / 10))) [''h'', ''1.2.3.4'', ''4'']}
   \<and> inUnitInterval (Plain (Finite (3 / 10)))"
proof -
  let ?fresh = "[(''h 1.2.3.4 4'', exampleMetrics), (''a 10.0.0.1 4'', idleMetrics)]"
  let ?fresh' = "[(''h 1.2.3.4 4'', exampleMetrics)]"
  let ?q = "\<lparr>target = ''h 1.2.3.4 4''\<rparr>"
  let ?r = "snd (pingBatchCollector_Collect exampleSettings \<lparr>metrics = []\<rparr> ?fresh)"
  note T = loss_ratio_emitted
    [of exampleSettings "\<lparr>metrics = []\<rparr>" ?fresh ?q ?fresh' exampleMetrics]
  have served: "metrics (fst (pingBatchCollector_Collect exampleSettings \<lparr>metrics = []\<rparr> ?fresh)) = ?fresh"
    by (simp add: batch_served)
  have tp: "threeParts ''a 10.0.0.1 4''" by (simp add: threeParts_def numeral_3_eq_3)
  have sp: "SplitN ''a 10.0.0.1 4'' CHR '' '' 3 = [''a'', ''10.0.0.1'', ''4'']"
    by (simp add: numeral_3_eq_3)
  have h1: "list_all threeParts (map fst ?fresh) \<and> distinct (map fst ?fresh)"
    by (simp add: threeParts_example tp)
  have h2: "threeParts (target ?q) \<and> map_of ?fresh' (target ?q) = Some exampleMetrics"
    by (simp add: threeParts_example)
  from T h1 have "\<forall>(tgt, m) \<in> set ?fresh. lossRule ?r tgt m"
    unfolding served by blast
  then have "lossRule ?r ''h 1.2.3.4 4'' exampleMetrics" and "lossRule ?r ''a 10.0.0.1 4'' idleMetrics"
    by simp_all
  then have a: "set (lossSamplesFor ?r [''a'', ''10.0.0.1'', ''4''])
       = {Sample lossDesc (Plain NaN) [''a'', ''10.0.0.1'', ''4'']}"
    and b: "set (lossSamplesFor ?r [''h'', ''1.2.3.4'', ''4''])
       = {Sample lossDesc (Plain (Finite (3 / 10))) [''h'', ''1.2.3.4'', ''4'']}
       \<and> inUnitInterval (Plain (Finite (3 / 10)))"
    by (simp_all add: lossRule_def Let_def SplitN_example sp exampleMetrics_def idleMetrics_def)
  from T h2 have "lossRule (pingCollector_Collect exampleSettings ?q ?fresh') (target ?q) exampleMetrics"
    by blast
  then have c: "set (lossSamplesFor (pingCollector_Collect exampleSettings ?q ?fresh')
        [''h'', ''1.2.3.4'', ''4''])
       = {Sample lossDesc (Plain (Finite (3 / 10))) [''h'', ''1.2.3.4'', ''4'']}"
    by (simp add: lossRule_def Let_def SplitN_example exampleMetrics_def)
  from a b c show ?thesis by blast
qed

text \<open>
  C8, as amended. When every identity splits into exactly three parts, neither
  collector panics on a label-count mismatch, and every sample sent is the up gauge
  (which has no variable label) or carries, for an identity of the snapshot, the
  labels \<open>target\<close>, \<open>ip\<close> and \<open>ip_version\<close> bound to the three parts: exactly these
  three for the loss ratio and the four named RTT statistics, these three followed
  by the label \<open>type\<close> for the type-labelled RTT samples.
\<close>

theorem labels_bound_to_identity:
  "(list_all threeParts (map fst (metrics (fst (pingBatchCollector_Collect cfg p fresh)))) \<longrightarrow>
      snd (pingBatchCollector_Collect cfg p fresh) \<noteq> Inl InconsistentCardinality
      \<and> (emitted (snd (pingBatchCollector_Collect cfg p fresh)) s \<longrightarrow>
           s = Sample progDesc (Plain (Finite 1)) []
           \<or> (\<exists>(tgt, m) \<in> set (metrics (fst (pingBatchCollector_Collect cfg p fresh))). identityLabels tgt s)))
   \<and> (threeParts (target q) \<longrightarrow>
        pingCollector_Collect cfg q fresh' \<noteq> Inl InconsistentCardinality
        \<and> (emitted (pingCollector_Collect cfg q fresh') s \<longrightarrow>
             s = Sample progDesc (Plain (Finite 1)) [] \<or> identityLabels (target q) s))"
proof (intro conjI impI)
  assume wf: "list_all threeParts (map fst (metrics (fst (pingBatchCollector_Collect cfg p fresh))))"
  show "snd (pingBatchCollector_Collect cfg p fresh) \<noteq> Inl InconsistentCardinality"
    unfolding batch_result [OF wf] by simp
  assume "emitted (snd (pingBatchCollector_Collect cfg p fresh)) s"
  then consider "s = Sample progDesc (Plain (Finite 1)) []"
    | tgt m where "(tgt, m) \<in> set (metrics (fst (pingBatchCollector_Collect cfg p fresh)))"
        "s \<in> set (targetSamples cfg (SplitN tgt CHR '' '' 3) m)"
    unfolding batch_emitted_iff [OF wf] by blast
  then show "s = Sample progDesc (Plain (Finite 1)) []
           \<or> (\<exists>(tgt, m) \<in> set (metrics (fst (pingBatchCollector_Collect cfg p fresh))). identityLabels tgt s)"
  proof cases
    case 1
    then show ?thesis by simp
  next
    case 2
    from 2(1) wf have "threeParts tgt" by (auto simp: list_all_iff)
    from identityLabels_targetSamples [OF this 2(2)] 2(1) show ?thesis by blast
  qed
next
  assume tp: "threeParts (target q)"
  show "pingCollector_Collect cfg q fresh' \<noteq> Inl InconsistentCardinality"
  proof (cases "map_of fresh' (target q)")
    case None
    then show ?thesis by (simp add: pingCollector_Collect_def)
  next
    case (Some m)
    show ?thesis unfolding single_result [OF tp Some] by simp
  qed
  assume e: "emitted (pingCollector_Collect cfg q fresh') s"
  show "s = Sample progDesc (Plain (Finite 1)) [] \<or> identityLabels (target q) s"
  proof (cases "map_of fresh' (target q)")
    case None
    with e show ?thesis by (simp add: pingCollector_Collect_def emitted_def)
  next
    case (Some m)
    from e single_emitted_iff [OF tp Some, of cfg s] identityLabels_targetSamples [OF tp, of s cfg m]
    show ?thesis by blast
  qed
qed

theorem labels_bound_to_identity_witness:
  "snd (pingBatchCollector_Collect exampleSettings \<lparr>metrics = []\<rparr> [(''h 1.2.3.4 4'', exampleMetrics)])
     \<noteq> Inl InconsistentCardinality
   \<and> pingCollector_Collect exampleSettings \<lparr>target = ''h 1.2.3.4 4''\<rparr> [(''h 1.2.3.4 4'', exampleMetrics)]
     \<noteq> Inl InconsistentCardinality
   \<and> identityLabels ''h 1.2.3.4 4'' (Sample lossDesc (Plain (Finite (3 / 10))) [''h'', ''1.2.3.4'', ''4''])"
proof -
  let ?fresh = "[(''h 1.2.3.4 4'', exampleMetrics)]"
  let ?q = "\<lparr>target = ''h 1.2.3.4 4''\<rparr>"
  let ?s = "Sample lossDesc (Plain (Finite (3 / 10))) [''h'', ''1.2.3.4'', ''4'']"
  note T = labels_bound_to_identity [of exampleSettings "\<lparr>metrics = []\<rparr>" ?fresh ?s ?q ?fresh]
  have served: "metrics (fst (pingBatchCollector_Collect exampleSettings \<lparr>metrics = []\<rparr> ?fresh)) = ?fresh"
    by (simp add: batch_served)
  have h1: "list_all threeParts (map fst (metrics (fst (pingBatchCollector_Collect exampleSettings \<lparr>metrics = []\<rparr> ?fresh))))"
    by (simp add: served threeParts_example)
  have h2: "threeParts (target ?q)" by (simp add: threeParts_example)
  have h3: "emitted (pingCollector_Collect exampleSettings ?q ?fresh) ?s"
    by (simp add: example_single_result example_targetSamples emitted_def)
  have ne: "?s \<noteq> Sample progDesc (Plain (Finite 1)) []" by simp
  from T h1 h2 h3 ne show ?thesis by (simp add: threeParts_example)
qed

text \<open>
  The claim as stated (exactly the three labels for every sample) fails with the
  type-labelled samples enabled, as they are by default: for an identity of three
  parts the collector sends a sample with the four labels \<open>target\<close>, \<open>ip\<close>,
  \<open>ip_version\<close> and \<open>type\<close>, and the up gauge with no variable label.
\<close>

theorem four_labels_counterexample:
  "threeParts ''h 1.2.3.4 4''
   \<and> emitted (pingCollector_Collect exampleSettings \<lparr>target = ''h 1.2.3.4 4''\<rparr>
        [(''h 1.2.3.4 4'', exampleMetrics)])
       (Sample rttDesc (Millis 1) [''h'', ''1.2.3.4'', ''4'', ''best''])
   \<and> labelPairs (Sample rttDesc (Millis 1) [''h'', ''1.2.3.4'', ''4'', ''best'']) =
       [(''target'', ''h''), (''ip'', ''1.2.3.4''), (''ip_version'', ''4''), (''type'', ''best'')]
   \<and> emitted (pingCollector_Collect exampleSettings \<lparr>target = ''h 1.2.3.4 4''\<rparr>
        [(''h 1.2.3.4 4'', exampleMetrics)])
       (Sample progDesc (Plain (Finite 1)) [])
   \<and> labelPairs (Sample progDesc (Plain (Finite 1)) []) = []"
  by (simp add: threeParts_example example_single_result example_targetSamples emitted_def
      labelPairs_def desc_variableLabels)

text \<open>
  C9. With the deprecated-metrics toggle enabled, in both modes, the type-labelled
  sample of each statistic (\<open>type\<close> = best, worst, mean, std_dev) is sent with a
  value exactly when the separately named sample of that statistic is sent with
  the same value and the same identity labels, and for every identity with
  \<open>PacketsSent > PacketsLost\<close> the four type-labelled samples are sent with the
  values of the metrics; with the toggle disabled no type-labelled sample is sent.
\<close>

theorem type_labelled_same_values:
  "(enableDeprecatedMetrics cfg
      \<and> list_all threeParts (map fst (metrics (fst (pingBatchCollector_Collect cfg p fresh)))) \<longrightarrow>
      sameValues (snd (pingBatchCollector_Collect cfg p fresh)) l v
      \<and> (\<forall>(tgt, m) \<in> set (metrics (fst (pingBatchCollector_Collect cfg p fresh))).
           PacketsSent m > PacketsLost m \<longrightarrow>
           typeLabelledEmitted (snd (pingBatchCollector_Collect cfg p fresh)) tgt m))
   \<and> (enableDeprecatedMetrics cfg \<and> threeParts (target q)
        \<and> map_of fresh' (target q) = Some m' \<longrightarrow>
        sameValues (pingCollector_Collect cfg q fresh') l v
        \<and> (PacketsSent m' > PacketsLost m' \<longrightarrow>
             typeLabelledEmitted (pingCollector_Collect cfg q fresh') (target q) m'))
   \<and> (\<not> enableDeprecatedMetrics cfg \<longrightarrow>
        typeLabelled (snd (pingBatchCollector_Collect cfg p fresh)) = []
        \<and> typeLabelled (pingCollector_Collect cfg q fresh') = [])"
proof (intro conjI impI)
  assume h: "enableDeprecatedMetrics cfg
      \<and> list_all threeParts (map fst (metrics (fst (pingBatchCollector_Collect cfg p fresh))))"
  then have dep: "enableDeprecatedMetrics cfg"
    and wf: "list_all threeParts (map fst (metrics (fst (pingBatchCollector_Collect cfg p fresh))))" by simp_all
  show "sameValues (snd (pingBatchCollector_Collect cfg p fresh)) l v"
    by (rule sameValues_lists [OF dep batch_emitted_iff [OF wf]])
  show "\<forall>(tgt, m) \<in> set (metrics (fst (pingBatchCollector_Collect cfg p fresh))).
           PacketsSent m > PacketsLost m \<longrightarrow>
           typeLabelledEmitted (snd (pingBatchCollector_Collect cfg p fresh)) tgt m"
  proof (intro ballI, clarify)
    fix tgt m
    assume mem: "(tgt, m) \<in> set (metrics (fst (pingBatchCollector_Collect cfg p fresh)))"
      and gt: "PacketsLost m < PacketsSent m"
    have sub: "\<And>s. s \<in> set (targetSamples cfg (SplitN tgt CHR '' '' 3) m)
        \<Longrightarrow> emitted (snd (pingBatchCollector_Collect cfg p fresh)) s"
      unfolding batch_emitted_iff [OF wf] using mem by blast
    show "typeLabelledEmitted (snd (pingBatchCollector_Collect cfg p fresh)) tgt m"
      by (rule typeLabelledEmitted_sub [OF dep gt sub])
  qed
next
  assume h: "enableDeprecatedMetrics cfg \<and> threeParts (target q)
        \<and> map_of fresh' (target q) = Some m'"
  then have dep: "enableDeprecatedMetrics cfg" and tp: "threeParts (target q)"
    and look: "map_of fresh' (target q) = Some m'" by simp_all
  have iff: "\<And>s. emitted (pingCollector_Collect cfg q fresh') s \<longleftrightarrow>
      s = Sample progDesc (Plain (Finite 1)) [] \<or>
      (\<exists>(tgt, m) \<in> {(target q, m')}. s \<in> set (targetSamples cfg (SplitN tgt CHR '' '' 3) m))"
    using single_emitted_iff [OF tp look] by simp
  show "sameValues (pingCollector_Collect cfg q fresh') l v"
    by (rule sameValues_lists [OF dep iff])
  {
    assume gt: "PacketsLost m' < PacketsSent m'"
    have sub: "\<And>s. s \<in> set (targetSamples cfg (SplitN (target q) CHR '' '' 3) m')
        \<Longrightarrow> emitted (pingCollector_Collect cfg q fresh') s"
      using single_emitted_iff [OF tp look] by blast
    show "typeLabelledEmitted (pingCollector_Collect cfg q fresh') (target q) m'"
      by (rule typeLabelledEmitted_sub [OF dep gt sub])
  }
next
  assume "\<not> enableDeprecatedMetrics cfg"
  then show "typeLabelled (snd (pingBatchCollector_Collect cfg p fresh)) = []"
    by (rule typeLabelled_disabled_batch)
next
  assume "\<not> enableDeprecatedMetrics cfg"
  then show "typeLabelled (pingCollector_Collect cfg q fresh') = []"
    by (rule typeLabelled_disabled_single)
qed

theorem type_labelled_same_values_witness:
  "sameValues (snd (pingBatchCollector_Collect exampleSettings \<lparr>metrics = []\<rparr> [(''h 1.2.3.4 4'', exampleMetrics)]))
     [''h'', ''1.2.3.4'', ''4''] (Millis 1)
   \<and> typeLabelledEmitted
       (snd (pingBatchCollector_Collect exampleSettings \<lparr>metrics = []\<rparr> [(''h 1.2.3.4 4'', exampleMetrics)]))
       ''h 1.2.3.4 4'' exampleMetrics
   \<and> sameValues (pingCollector_Collect exampleSettings \<lparr>target = ''h 1.2.3.4 4''\<rparr>
       [(''h 1.2.3.4 4'', exampleMetrics)]) [''h'', ''1.2.3.4'', ''4''] (Millis 1)
   \<and> typeLabelledEmitted (pingCollector_Collect exampleSettings \<lparr>target = ''h 1.2.3.4 4''\<rparr>
       [(''h 1.2.3.4 4'', exampleMetrics)]) ''h 1.2.3.4 4'' exampleMetrics
   \<and> typeLabelled (pingCollector_Collect (exampleSettings\<lparr>enableDeprecatedMetrics := False\<rparr>)
       \<lparr>target = ''h 1.2.3.4 4''\<rparr> [(''h 1.2.3.4 4'', exampleMetrics)]) = []"
proof -
  let ?fresh = "[(''h 1.2.3.4 4'', exampleMetrics)]"
  let ?q = "\<lparr>target = ''h 1.2.3.4 4''\<rparr>"
  let ?l = "[''h'', ''1.2.3.4'', ''4'']"
  let ?off = "exampleSettings\<lparr>enableDeprecatedMetrics := False\<rparr>"
  note T = type_labelled_same_values
    [of exampleSettings "\<lparr>metrics = []\<rparr>" ?fresh ?l "Millis 1" ?q ?fresh exampleMetrics]
  note U = type_labelled_same_values
    [of ?off "\<lparr>metrics = []\<rparr>" ?fresh ?l "Millis 1" ?q ?fresh exampleMetrics]
  have served: "metrics (fst (pingBatchCollector_Collect exampleSettings \<lparr>metrics = []\<rparr> ?fresh)) = ?fresh"
    by (simp add: batch_served)
  have h1: "enableDeprecatedMetrics exampleSettings
      \<and> list_all threeParts (map fst (metrics (fst (pingBatchCollector_Collect exampleSettings \<lparr>metrics = []\<rparr> ?fresh))))"
    by (simp add: served threeParts_example) (simp add: exampleSettings_def)
  have h2: "enableDeprecatedMetrics exampleSettings \<and> threeParts (target ?q)
      \<and> map_of ?fresh (target ?q) = Some exampleMetrics"
    by (simp add: threeParts_example) (simp add: exampleSettings_def)
  have h3: "PacketsSent exampleMetrics > PacketsLost exampleMetrics"
    by (simp add: exampleMetrics_def)
  have h4: "\<not> enableDeprecatedMetrics ?off" by simp
  from T h1 have a: "sameValues (snd (pingBatchCollector_Collect exampleSettings \<lparr>metrics = []\<rparr> ?fresh)) ?l (Millis 1)"
    and "\<forall>(tgt, m) \<in> set ?fresh. PacketsSent m > PacketsLost m \<longrightarrow>
           typeLabelledEmitted (snd (pingBatchCollector_Collect exampleSettings \<lparr>metrics = []\<rparr> ?fresh)) tgt m"
    unfolding served by blast+
  with h3 have b: "typeLabelledEmitted (snd (pingBatchCollector_Collect exampleSettings \<lparr>metrics = []\<rparr> ?fresh))
      ''h 1.2.3.4 4'' exampleMetrics" by simp
  from T h2 h3 have c: "sameValues (pingCollector_Collect exampleSettings ?q ?fresh) ?l (Millis 1)
      \<and> typeLabelledEmitted (pingCollector_Collect exampleSettings ?q ?fresh) ''h 1.2.3.4 4'' exampleMetrics"
    by simp
  from U h4 have d: "typeLabelled (pingCollector_Collect ?off ?q ?fresh) = []" by blast
  from a b c d show ?thesis by blast
qed

text \<open>
  C10. In single-target mode, when the fresh snapshot pulled from the probe engine
  does not contain the requested identity, the collector sends no sample at all,
  neither the up gauge nor a loss ratio: it returns normally with nothing sent. The
  response to the on-demand request is then the empty export, not an error.
\<close>

theorem single_absent_emits_nothing:
  "(map_of fresh (target p) = None \<longrightarrow> pingCollector_Collect cfg p fresh = Inr [])
   \<and> (query req \<noteq> [] \<and> lookup req = Inr (a # as)
        \<and> (targetsMap w (query req) = None \<and> rejects req = None
            \<or> targetsMap w (query req) = Some tid)
        \<and> map_of (export req) (query req @ '' '' @ IP a @ '' '' @ family a) = None \<longrightarrow>
        fst (handler cfg req w) = Served (Inr []))"
proof (intro conjI impI)
  assume "map_of fresh (target p) = None"
  then show "pingCollector_Collect cfg p fresh = Inr []"
    by (simp add: pingCollector_Collect_def)
next
  assume h: "query req \<noteq> [] \<and> lookup req = Inr (a # as)
        \<and> (targetsMap w (query req) = None \<and> rejects req = None
            \<or> targetsMap w (query req) = Some tid)
        \<and> map_of (export req) (query req @ '' '' @ IP a @ '' '' @ family a) = None"
  then have "fst (handler cfg req w) =
      Served (pingCollector_Collect cfg
        \<lparr>target = query req @ '' '' @ IP a @ '' '' @ family a\<rparr> (export req))"
    by (auto simp: handler_new handler_refresh serve_identity)
  with h show "fst (handler cfg req w) = Served (Inr [])"
    by (simp add: pingCollector_Collect_def)
qed

theorem single_absent_emits_nothing_witness:
  "pingCollector_Collect exampleSettings \<lparr>target = ''h 1.2.3.4 4''\<rparr>
      [(''a 10.0.0.1 4'', exampleMetrics)] = Inr []
   \<and> fst (handler exampleSettings (exampleRequest\<lparr>export := []\<rparr>) initialWorld) = Served (Inr [])"
proof -
  let ?req = "exampleRequest\<lparr>export := []\<rparr>"
  note T = single_absent_emits_nothing
    [where fresh = "[(''a 10.0.0.1 4'', exampleMetrics)]" and p = "\<lparr>target = ''h 1.2.3.4 4''\<rparr>"
      and cfg = exampleSettings and req = ?req and a = exampleAddr and as = "[]"
      and w = initialWorld and tid = 0]
  have h1: "map_of [(''a 10.0.0.1 4'', exampleMetrics)] (target \<lparr>target = ''h 1.2.3.4 4''\<rparr>) = None"
    by simp
  have h2: "query ?req \<noteq> [] \<and> lookup ?req = Inr (exampleAddr # [])
        \<and> (targetsMap initialWorld (query ?req) = None \<and> rejects ?req = None
            \<or> targetsMap initialWorld (query ?req) = Some 0)
        \<and> map_of (export ?req) (query ?req @ '' '' @ IP exampleAddr @ '' '' @ family exampleAddr) = None"
    by (simp add: exampleRequest_def initialWorld_def)
  from T h1 h2 show ?thesis by blast
qed

section \<open>The claims about the ephemeral target registry and the handler\<close>

text \<open>
  C4, as amended. The handler does not consult the static target list: its result
  is the same whatever \<^verbatim>\<open>cfg.Targets\<close> holds. An on-demand request naming a hostname,
  statically configured or not, that resolves to at least one address leaves an
  entry of the registry keyed by that hostname, provided the hostname already has
  an entry or the engine accepts the registration.
\<close>

theorem static_hostname_gets_entry:
  "handler (cfg\<lparr>Targets := ts\<rparr>) req w = handler cfg req w
   \<and> (query req \<noteq> [] \<and> lookup req = Inr (a # as)
        \<and> (targetsMap w (query req) = None \<and> rejects req = None
            \<or> targetsMap w (query req) = Some tid) \<longrightarrow>
        targetsMap (snd (handler cfg req w)) (query req) = Some (nextTimer w))"
proof (intro conjI impI)
  show "handler (cfg\<lparr>Targets := ts\<rparr>) req w = handler cfg req w" by (rule handler_Targets)
next
  assume "query req \<noteq> [] \<and> lookup req = Inr (a # as)
        \<and> (targetsMap w (query req) = None \<and> rejects req = None
            \<or> targetsMap w (query req) = Some tid)"
  then show "targetsMap (snd (handler cfg req w)) (query req) = Some (nextTimer w)"
    by (auto simp: handler_new handler_refresh arm_entry Stop_def)
qed

theorem static_hostname_gets_entry_witness:
  "handler (exampleSettings\<lparr>Targets := []\<rparr>) exampleRequest initialWorld
     = handler exampleSettings exampleRequest initialWorld
   \<and> targetsMap (snd (handler exampleSettings exampleRequest initialWorld)) ''example.com''
     = Some 0"
proof -
  note T = static_hostname_gets_entry
    [where cfg = exampleSettings and ts = "[]" and req = exampleRequest and w = initialWorld
      and a = exampleAddr and as = "[]" and tid = 0]
  have h: "query exampleRequest \<noteq> [] \<and> lookup exampleRequest = Inr (exampleAddr # [])
      \<and> (targetsMap initialWorld (query exampleRequest) = None \<and> rejects exampleRequest = None
          \<or> targetsMap initialWorld (query exampleRequest) = Some 0)"
    by (simp add: exampleRequest_def initialWorld_def)
  have v: "query exampleRequest = ''example.com''" "nextTimer initialWorld = 0"
    by (simp_all add: exampleRequest_def initialWorld_def)
  from T h show ?thesis unfolding v by blast
qed

text \<open>
  The claim as stated (no reachable state has an entry keyed by a statically
  configured hostname) fails at the first on-demand request for the configured
  hostname \<open>example.com\<close>, whose identity startup has registered: the state the
  request leaves has an entry and a live timer for the hostname.
\<close>

theorem static_hostname_counterexample:
  "''example.com'' \<in> set (Targets exampleSettings)
   \<and> targetsMap (snd (handler exampleSettings exampleRequest
         (startedWorld {''example.com 1.2.3.4 4''}))) ''example.com'' = Some 0
   \<and> map tg (timers (snd (handler exampleSettings exampleRequest
         (startedWorld {''example.com 1.2.3.4 4''})))) = [''example.com'']"
  unfolding example_first_request by (simp add: exampleSettings_def)




text \<open>
  C6, the code at a failing input. With a timeout of 10 seconds the hostname
  \<open>example.com\<close> is requested at second 0 (it is new, and its address is registered
  with the engine), requested again at second 2, and then left idle until second
  13. The timer of the second request fires: the entry is removed, but the target
  its callback closes over is the one made by the second request, which holds no
  address, so the identity registered at second 0 stays registered with the engine.
  A hostname requested once and left idle is deregistered.
\<close>

theorem refreshed_target_stays_registered:
  "targetsMap (serialRun exampleSettings
       [Request exampleRequest, Advance (2 * Second), Request exampleRequest,
        Advance (13 * Second)] initialWorld)
     ''example.com'' = None
   \<and> timers (serialRun exampleSettings
       [Request exampleRequest, Advance (2 * Second), Request exampleRequest,
        Advance (13 * Second)] initialWorld) = []
   \<and> ''example.com 1.2.3.4 4'' \<in> monitor (serialRun exampleSettings
       [Request exampleRequest, Advance (2 * Second), Request exampleRequest,
        Advance (13 * Second)] initialWorld)
   \<and> ''example.com 1.2.3.4 4'' \<notin> monitor (serialRun exampleSettings
       [Request exampleRequest, Advance (11 * Second)] initialWorld)"
  by (simp add: serialRun_def handler_def exampleRequest_def exampleSettings_def initialWorld_def
      resolve_def registerOrStop_def addIfNew_def arm_def AfterFunc_def Store_def advance_def
      fire_def expire_def callbackDelete_def callbackCleanUp_def Stop_def cleanUp_def
      timeoutDuration_def int64_def timerWhen_def Second_def exampleAddr_def nameForIP_def)

text \<open>
  C7. For an on-demand request (a non-empty \<open>target\<close> parameter), handled with nothing
  in between: when the lookup fails or returns no address the response is 400 with
  a body that ends in a line feed, hence is not empty, and the state is unchanged,
  so nothing is registered; when the hostname has no entry and the engine rejects
  the registration the response is 500 and the state is unchanged; otherwise the
  response is the export of the single-target collector for the identity of the
  first address. In that last case, for a timeout of 0 to 9223372036 seconds
  (beyond that the duration wraps around in \<^verbatim>\<open>int64\<close> nanoseconds) and a clock that
  does not overflow, the state left is: for a hostname with no entry, the identity
  registered with the engine and one more live timer, due \<^verbatim>\<open>*targetsTimeout\<close>
  seconds ahead and stored as the entry; for a hostname with an entry, the timer of
  the entry no longer live and the other timers as they were, one more live timer,
  due \<^verbatim>\<open>*targetsTimeout\<close> seconds ahead and stored as the entry, and the engine as it
  was.
\<close>

theorem on_demand_responses:
  "(query req \<noteq> [] \<and> lookup req = Inl err \<longrightarrow>
      handler cfg req w = (Error 400 (err @ [CHR 0x0A]), w))
   \<and> (query req \<noteq> [] \<and> lookup req = Inr [] \<longrightarrow>
      handler cfg req w = (Error 400 (''cannot resolve target'' @ [CHR 0x0A]), w))
   \<and> (query req \<noteq> [] \<and> lookup req = Inr (a # as) \<and> targetsMap w (query req) = None
        \<and> rejects req = Some e \<longrightarrow>
      handler cfg req w = (Error 500 (e @ [CHR 0x0A]), w))
   \<and> (query req \<noteq> [] \<and> lookup req = Inr (a # as)
        \<and> (targetsMap w (query req) = None \<and> rejects req = None
            \<or> targetsMap w (query req) = Some tid) \<longrightarrow>
      fst (handler cfg req w) =
        Served (pingCollector_Collect cfg
          \<lparr>target = query req @ '' '' @ IP a @ '' '' @ family a\<rparr> (export req)))
   \<and> (query req \<noteq> [] \<and> lookup req = Inr (a # as)
        \<and> targetsMap w (query req) = None \<and> rejects req = None
        \<and> 0 \<le> targetsTimeout cfg \<and> targetsTimeout cfg \<le> 9223372036
        \<and> now w + targetsTimeout cfg * 1000000000 \<le> 9223372036854775807 \<longrightarrow>
      snd (handler cfg req w) =
        w\<lparr>timers := timers w @
             [\<lparr>timerId = nextTimer w, firesAt = now w + targetsTimeout cfg * 1000000000,
               tg = query req, owner = \<lparr>host = query req, addresses = [a], delay = 1\<rparr>\<rparr>],
          nextTimer := Suc (nextTimer w),
          targetsMap := (targetsMap w)(query req \<mapsto> nextTimer w),
          monitor := insert (query req @ '' '' @ IP a @ '' '' @ family a) (monitor w)\<rparr>)
   \<and> (query req \<noteq> [] \<and> lookup req = Inr (a # as)
        \<and> targetsMap w (query req) = Some tid
        \<and> 0 \<le> targetsTimeout cfg \<and> targetsTimeout cfg \<le> 9223372036
        \<and> now w + targetsTimeout cfg * 1000000000 \<le> 9223372036854775807 \<longrightarrow>
      snd (handler cfg req w) =
        w\<lparr>timers := filter (\<lambda>x. timerId x \<noteq> tid) (timers w) @
             [\<lparr>timerId = nextTimer w, firesAt = now w + targetsTimeout cfg * 1000000000,
               tg = query req, owner = \<lparr>host = query req, addresses = [], delay = 1\<rparr>\<rparr>],
          nextTimer := Suc (nextTimer w),
          targetsMap := (targetsMap w)(query req \<mapsto> nextTimer w)\<rparr>
      \<and> (tid \<noteq> nextTimer w \<longrightarrow>
           tid \<notin> set (map timerId (timers (snd (handler cfg req w))))))"
proof (intro conjI impI)
  assume "query req \<noteq> [] \<and> lookup req = Inl err"
  then show "handler cfg req w = (Error 400 (err @ [CHR 0x0A]), w)"
    by (simp add: handler_def resolve_error)
next
  assume "query req \<noteq> [] \<and> lookup req = Inr []"
  then show "handler cfg req w = (Error 400 (''cannot resolve target'' @ [CHR 0x0A]), w)"
    by (simp add: handler_def resolve_empty)
next
  assume "query req \<noteq> [] \<and> lookup req = Inr (a # as) \<and> targetsMap w (query req) = None
        \<and> rejects req = Some e"
  then show "handler cfg req w = (Error 500 (e @ [CHR 0x0A]), w)"
    by (simp add: handler_def resolve_ok register_rejected)
next
  assume "query req \<noteq> [] \<and> lookup req = Inr (a # as)
        \<and> (targetsMap w (query req) = None \<and> rejects req = None
            \<or> targetsMap w (query req) = Some tid)"
  then show "fst (handler cfg req w) =
        Served (pingCollector_Collect cfg
          \<lparr>target = query req @ '' '' @ IP a @ '' '' @ family a\<rparr> (export req))"
    by (auto simp: handler_new handler_refresh serve_identity)
next
  assume "query req \<noteq> [] \<and> lookup req = Inr (a # as)
        \<and> targetsMap w (query req) = None \<and> rejects req = None
        \<and> 0 \<le> targetsTimeout cfg \<and> targetsTimeout cfg \<le> 9223372036
        \<and> now w + targetsTimeout cfg * 1000000000 \<le> 9223372036854775807"
  then show "snd (handler cfg req w) =
        w\<lparr>timers := timers w @
             [\<lparr>timerId = nextTimer w, firesAt = now w + targetsTimeout cfg * 1000000000,
               tg = query req, owner = \<lparr>host = query req, addresses = [a], delay = 1\<rparr>\<rparr>],
          nextTimer := Suc (nextTimer w),
          targetsMap := (targetsMap w)(query req \<mapsto> nextTimer w),
          monitor := insert (query req @ '' '' @ IP a @ '' '' @ family a) (monitor w)\<rparr>"
    by (intro handler_new_state) simp_all
next
  assume h: "query req \<noteq> [] \<and> lookup req = Inr (a # as)
        \<and> targetsMap w (query req) = Some tid
        \<and> 0 \<le> targetsTimeout cfg \<and> targetsTimeout cfg \<le> 9223372036
        \<and> now w + targetsTimeout cfg * 1000000000 \<le> 9223372036854775807"
  then show st: "snd (handler cfg req w) =
        w\<lparr>timers := filter (\<lambda>x. timerId x \<noteq> tid) (timers w) @
             [\<lparr>timerId = nextTimer w, firesAt = now w + targetsTimeout cfg * 1000000000,
               tg = query req, owner = \<lparr>host = query req, addresses = [], delay = 1\<rparr>\<rparr>],
          nextTimer := Suc (nextTimer w),
          targetsMap := (targetsMap w)(query req \<mapsto> nextTimer w)\<rparr>"
    by (intro handler_refresh_state) simp_all
  assume "tid \<noteq> nextTimer w"
  then show "tid \<notin> set (map timerId (timers (snd (handler cfg req w))))"
    unfolding st by auto
qed

theorem on_demand_responses_witness:
  "handler exampleSettings (exampleRequest\<lparr>lookup := Inl ''no such host''\<rparr>) initialWorld
     = (Error 400 (''no such host'' @ [CHR 0x0A]), initialWorld)
   \<and> handler exampleSettings (exampleRequest\<lparr>lookup := Inr []\<rparr>) initialWorld
     = (Error 400 (''cannot resolve target'' @ [CHR 0x0A]), initialWorld)
   \<and> handler exampleSettings (exampleRequest\<lparr>rejects := Some ''rejected''\<rparr>) initialWorld
     = (Error 500 (''rejected'' @ [CHR 0x0A]), initialWorld)
   \<and> fst (handler exampleSettings exampleRequest initialWorld)
     = Served (pingCollector_Collect exampleSettings \<lparr>target = ''example.com 1.2.3.4 4''\<rparr>
         [(''example.com 1.2.3.4 4'', exampleMetrics)])
   \<and> snd (handler exampleSettings exampleRequest initialWorld)
     = \<lparr>now = 0, targetsMap = [''example.com'' \<mapsto> 0],
        timers = [\<lparr>timerId = 0, firesAt = 10000000000, tg = ''example.com'',
                   owner = \<lparr>host = ''example.com'', addresses = [exampleAddr], delay = 1\<rparr>\<rparr>],
        nextTimer = 1, monitor = {''example.com 1.2.3.4 4''}, batch = \<lparr>metrics = []\<rparr>\<rparr>
   \<and> snd (handler exampleSettings exampleRequest
        (serialRun exampleSettings [Request exampleRequest, Advance (2 * Second)] initialWorld))
     = \<lparr>now = 2000000000, targetsMap = [''example.com'' \<mapsto> 1],
        timers = [\<lparr>timerId = 1, firesAt = 12000000000, tg = ''example.com'',
                   owner = \<lparr>host = ''example.com'', addresses = [], delay = 1\<rparr>\<rparr>],
        nextTimer = 2, monitor = {''example.com 1.2.3.4 4''}, batch = \<lparr>metrics = []\<rparr>\<rparr>
   \<and> (0::nat) \<notin> set (map timerId (timers (snd (handler exampleSettings exampleRequest
        (serialRun exampleSettings [Request exampleRequest, Advance (2 * Second)] initialWorld)))))"
proof -
  let ?r1 = "exampleRequest\<lparr>lookup := Inl ''no such host''\<rparr>"
  let ?r2 = "exampleRequest\<lparr>lookup := Inr []\<rparr>"
  let ?r3 = "exampleRequest\<lparr>rejects := Some ''rejected''\<rparr>"
  let ?w = "serialRun exampleSettings [Request exampleRequest, Advance (2 * Second)] initialWorld"
  have h1: "query ?r1 \<noteq> [] \<and> lookup ?r1 = Inl ''no such host''"
    by (simp add: exampleRequest_def)
  have h2: "query ?r2 \<noteq> [] \<and> lookup ?r2 = Inr []"
    by (simp add: exampleRequest_def)
  have h3: "query ?r3 \<noteq> [] \<and> lookup ?r3 = Inr (exampleAddr # [])
      \<and> targetsMap initialWorld (query ?r3) = None \<and> rejects ?r3 = Some ''rejected''"
    by (simp add: exampleRequest_def initialWorld_def)
  have h4: "query exampleRequest \<noteq> [] \<and> lookup exampleRequest = Inr (exampleAddr # [])
      \<and> (targetsMap initialWorld (query exampleRequest) = None \<and> rejects exampleRequest = None
          \<or> targetsMap initialWorld (query exampleRequest) = Some 0)"
    by (simp add: exampleRequest_def initialWorld_def)
  have h5: "query exampleRequest \<noteq> [] \<and> lookup exampleRequest = Inr (exampleAddr # [])
      \<and> targetsMap initialWorld (query exampleRequest) = None \<and> rejects exampleRequest = None
      \<and> 0 \<le> targetsTimeout exampleSettings \<and> targetsTimeout exampleSettings \<le> 9223372036
      \<and> now initialWorld + targetsTimeout exampleSettings * 1000000000 \<le> 9223372036854775807"
    by (simp add: exampleRequest_def initialWorld_def exampleSettings_def)
  have h6: "query exampleRequest \<noteq> [] \<and> lookup exampleRequest = Inr (exampleAddr # [])
      \<and> targetsMap ?w (query exampleRequest) = Some 0
      \<and> 0 \<le> targetsTimeout exampleSettings \<and> targetsTimeout exampleSettings \<le> 9223372036
      \<and> now ?w + targetsTimeout exampleSettings * 1000000000 \<le> 9223372036854775807"
    unfolding example_run by (simp add: exampleRequest_def exampleSettings_def)
  have h7: "(0::nat) \<noteq> nextTimer ?w" unfolding example_run by simp
  from on_demand_responses [of ?r1 "''no such host''" exampleSettings initialWorld] h1
  have a: "handler exampleSettings ?r1 initialWorld
     = (Error 400 (''no such host'' @ [CHR 0x0A]), initialWorld)" by blast
  from on_demand_responses [of ?r2 _ exampleSettings initialWorld] h2
  have b: "handler exampleSettings ?r2 initialWorld
     = (Error 400 (''cannot resolve target'' @ [CHR 0x0A]), initialWorld)" by blast
  from on_demand_responses [of ?r3 _ exampleSettings initialWorld exampleAddr "[]" "''rejected''"] h3
  have c: "handler exampleSettings ?r3 initialWorld
     = (Error 500 (''rejected'' @ [CHR 0x0A]), initialWorld)" by blast
  note T = on_demand_responses
    [where req = exampleRequest and cfg = exampleSettings and w = initialWorld
      and a = exampleAddr and as = "[]" and tid = 0]
  from T h4 have "fst (handler exampleSettings exampleRequest initialWorld)
     = Served (pingCollector_Collect exampleSettings
         \<lparr>target = query exampleRequest @ '' '' @ IP exampleAddr @ '' '' @ family exampleAddr\<rparr>
         (export exampleRequest))"
    by blast
  then have d: "fst (handler exampleSettings exampleRequest initialWorld)
     = Served (pingCollector_Collect exampleSettings \<lparr>target = ''example.com 1.2.3.4 4''\<rparr>
         [(''example.com 1.2.3.4 4'', exampleMetrics)])"
    by (simp add: exampleRequest_def exampleAddr_def)
  from T h5 have "snd (handler exampleSettings exampleRequest initialWorld) =
        initialWorld\<lparr>timers := timers initialWorld @
             [\<lparr>timerId = nextTimer initialWorld,
               firesAt = now initialWorld + targetsTimeout exampleSettings * 1000000000,
               tg = query exampleRequest,
               owner = \<lparr>host = query exampleRequest, addresses = [exampleAddr], delay = 1\<rparr>\<rparr>],
          nextTimer := Suc (nextTimer initialWorld),
          targetsMap := (targetsMap initialWorld)(query exampleRequest \<mapsto> nextTimer initialWorld),
          monitor := insert (query exampleRequest @ '' '' @ IP exampleAddr @ '' '' @ family exampleAddr)
                       (monitor initialWorld)\<rparr>"
    by blast
  then have e: "snd (handler exampleSettings exampleRequest initialWorld)
     = \<lparr>now = 0, targetsMap = [''example.com'' \<mapsto> 0],
        timers = [\<lparr>timerId = 0, firesAt = 10000000000, tg = ''example.com'',
                   owner = \<lparr>host = ''example.com'', addresses = [exampleAddr], delay = 1\<rparr>\<rparr>],
        nextTimer = 1, monitor = {''example.com 1.2.3.4 4''}, batch = \<lparr>metrics = []\<rparr>\<rparr>"
    by (simp add: initialWorld_def exampleRequest_def exampleSettings_def exampleAddr_def)
  note U = on_demand_responses
    [where req = exampleRequest and cfg = exampleSettings and w = ?w
      and a = exampleAddr and as = "[]" and tid = 0]
  from U h6 h7 have "snd (handler exampleSettings exampleRequest ?w) =
        ?w\<lparr>timers := filter (\<lambda>x. timerId x \<noteq> 0) (timers ?w) @
             [\<lparr>timerId = nextTimer ?w,
               firesAt = now ?w + targetsTimeout exampleSettings * 1000000000,
               tg = query exampleRequest,
               owner = \<lparr>host = query exampleRequest, addresses = [], delay = 1\<rparr>\<rparr>],
          nextTimer := Suc (nextTimer ?w),
          targetsMap := (targetsMap ?w)(query exampleRequest \<mapsto> nextTimer ?w)\<rparr>"
    and g: "(0::nat) \<notin> set (map timerId (timers (snd (handler exampleSettings exampleRequest ?w))))"
    by blast+
  then have f: "snd (handler exampleSettings exampleRequest ?w)
     = \<lparr>now = 2000000000, targetsMap = [''example.com'' \<mapsto> 1],
        timers = [\<lparr>timerId = 1, firesAt = 12000000000, tg = ''example.com'',
                   owner = \<lparr>host = ''example.com'', addresses = [], delay = 1\<rparr>\<rparr>],
        nextTimer = 2, monitor = {''example.com 1.2.3.4 4''}, batch = \<lparr>metrics = []\<rparr>\<rparr>"
    unfolding example_run by (simp add: exampleRequest_def exampleSettings_def)
  from a b c d e f g show ?thesis by blast
qed

end
